theory Spec2Isabelle
  imports Main
begin

section \<open>Strings as the script uses them\<close>

text \<open>
  A Python \<open>str\<close> is modelled as a \<open>string\<close> whose characters are the code points
  below 256. The character classes below are the ones Python's \<open>re\<close> and \<open>str\<close>
  methods use on that range.
\<close>

definition ascii_lower :: string where
  "ascii_lower = ''abcdefghijklmnopqrstuvwxyz''"

definition ascii_upper :: string where
  "ascii_upper = ''ABCDEFGHIJKLMNOPQRSTUVWXYZ''"

definition ascii_digits :: string where
  "ascii_digits = ''0123456789''"

definition name_class :: "char \<Rightarrow> bool" where
  \<comment> \<open>the class \<open>[a-zA-Z0-9_./-]\<close> of \<open>parse_image_input\<close>\<close>
  "name_class c = (c \<in> set (ascii_lower @ ascii_upper @ ascii_digits @ ''_./-''))"

definition is_space :: "char \<Rightarrow> bool" where
  \<comment> \<open>\<open>\s\<close> of \<open>re\<close> and the characters \<open>str.strip()\<close> removes\<close>
  "is_space c = (c \<in> set [CHR 0x09, CHR 0x0A, CHR 0x0B, CHR 0x0C, CHR 0x0D,
                            CHR 0x1C, CHR 0x1D, CHR 0x1E, CHR 0x1F, CHR 0x20,
                            CHR 0x85, CHR 0xA0])"

definition latin1_word :: string where
  "latin1_word =
     [CHR 0xAA, CHR 0xB2, CHR 0xB3, CHR 0xB5, CHR 0xB9, CHR 0xBA, CHR 0xBC, CHR 0xBD, CHR 0xBE,
      CHR 0xC0, CHR 0xC1, CHR 0xC2, CHR 0xC3, CHR 0xC4, CHR 0xC5, CHR 0xC6, CHR 0xC7,
      CHR 0xC8, CHR 0xC9, CHR 0xCA, CHR 0xCB, CHR 0xCC, CHR 0xCD, CHR 0xCE, CHR 0xCF,
      CHR 0xD0, CHR 0xD1, CHR 0xD2, CHR 0xD3, CHR 0xD4, CHR 0xD5, CHR 0xD6,
      CHR 0xD8, CHR 0xD9, CHR 0xDA, CHR 0xDB, CHR 0xDC, CHR 0xDD, CHR 0xDE, CHR 0xDF,
      CHR 0xE0, CHR 0xE1, CHR 0xE2, CHR 0xE3, CHR 0xE4, CHR 0xE5, CHR 0xE6, CHR 0xE7,
      CHR 0xE8, CHR 0xE9, CHR 0xEA, CHR 0xEB, CHR 0xEC, CHR 0xED, CHR 0xEE, CHR 0xEF,
      CHR 0xF0, CHR 0xF1, CHR 0xF2, CHR 0xF3, CHR 0xF4, CHR 0xF5, CHR 0xF6,
      CHR 0xF8, CHR 0xF9, CHR 0xFA, CHR 0xFB, CHR 0xFC, CHR 0xFD, CHR 0xFE, CHR 0xFF]"

definition is_word :: "char \<Rightarrow> bool" where
  \<comment> \<open>\<open>\w\<close> of \<open>re\<close> on a \<open>str\<close> pattern\<close>
  "is_word c = (c \<in> set (ascii_lower @ ascii_upper @ ascii_digits @ ''_'' @ latin1_word))"

definition strip :: "string \<Rightarrow> string" where
  \<comment> \<open>\<open>str.strip()\<close>\<close>
  "strip s = rev (dropWhile is_space (rev (dropWhile is_space s)))"

fun split :: "char \<Rightarrow> string \<Rightarrow> string list" where
  \<comment> \<open>\<open>str.split(sep)\<close> for a one-character separator\<close>
  "split sep [] = [[]]"
| "split sep (c # cs) =
     (if c = sep then [] # split sep cs
      else (case split sep cs of [] \<Rightarrow> [[c]] | w # ws \<Rightarrow> (c # w) # ws))"

definition split1 :: "char \<Rightarrow> string \<Rightarrow> string \<times> string" where
  \<comment> \<open>the two pieces of \<open>s.split(sep, 1)\<close> when \<open>sep\<close> occurs in \<open>s\<close>\<close>
  "split1 sep s = (takeWhile (\<lambda>c. c \<noteq> sep) s, tl (dropWhile (\<lambda>c. c \<noteq> sep) s))"

section \<open>The record of a run\<close>

record image_info =
  original_name :: string
  original_tag :: string
  arch :: string
  mirror :: "string option"
  tar_name :: string
  zip_name :: string
  pulled_ref :: string

definition init_info :: image_info where
  "init_info = \<lparr>original_name = '''', original_tag = ''latest'', arch = ''amd64'',
                 mirror = None, tar_name = '''', zip_name = '''', pulled_ref = ''''\<rparr>"

definition truthy :: "string option \<Rightarrow> bool" where
  \<comment> \<open>Python's truth value of \<open>None\<close> or a \<open>str\<close>\<close>
  "truthy v = (case v of None \<Rightarrow> False | Some s \<Rightarrow> s \<noteq> [])"

subsection \<open>parse_image_input\<close>

definition re_sub_name :: "string \<Rightarrow> string" where
  \<comment> \<open>\<open>re.sub(r'[^a-zA-Z0-9_./-]', '_', name)\<close>\<close>
  "re_sub_name name = map (\<lambda>c. if name_class c then c else CHR ''_'') name"

definition parse_image_input :: "string \<Rightarrow> image_info \<Rightarrow> image_info" where
  "parse_image_input image_input info =
     (let info1 =
        (if CHR '':'' \<in> set image_input
         then (case split1 (CHR '':'') image_input of
                 (n, t) \<Rightarrow> info\<lparr>original_name := n, original_tag := t\<rparr>)
         else info\<lparr>original_name := image_input\<rparr>)
      in info1\<lparr>original_name := re_sub_name (original_name info1)\<rparr>)"

subsection \<open>get_pull_reference\<close>

definition get_pull_reference :: "image_info \<Rightarrow> string" where
  "get_pull_reference info =
     (let name = original_name info in
      if truthy (mirror info)
      then (if CHR ''/'' \<notin> set name
            then the (mirror info) @ ''/library/'' @ name
            else the (mirror info) @ ''/'' @ name)
      else name)"

subsection \<open>generate_filenames\<close>

record datetime =
  year :: nat
  month :: nat
  day :: nat
  hour :: nat
  minute :: nat
  second :: nat

definition digit :: "nat \<Rightarrow> char" where
  "digit n = ascii_digits ! (n mod 10)"

definition pad2 :: "nat \<Rightarrow> string" where
  "pad2 n = [digit (n div 10), digit n]"

definition pad4 :: "nat \<Rightarrow> string" where
  "pad4 n = [digit (n div 1000), digit (n div 100), digit (n div 10), digit n]"

definition strftime_stamp :: "datetime \<Rightarrow> string" where
  \<comment> \<open>\<open>strftime("%Y%m%d_%H%M%S")\<close>, for a year of four digits\<close>
  "strftime_stamp t =
     pad4 (year t) @ pad2 (month t) @ pad2 (day t) @ ''_'' @
     pad2 (hour t) @ pad2 (minute t) @ pad2 (second t)"

definition safe_name :: "string \<Rightarrow> string" where
  \<comment> \<open>\<open>re.sub(r'[:/]', '_', name)\<close>\<close>
  "safe_name name = map (\<lambda>c. if c = CHR '':'' \<or> c = CHR ''/'' then CHR ''_'' else c) name"

definition base_name :: "datetime \<Rightarrow> image_info \<Rightarrow> string" where
  "base_name now info =
     safe_name (original_name info) @ ''_'' @ original_tag info @ ''_'' @ arch info @
     ''_'' @ strftime_stamp now"

definition generate_filenames :: "datetime \<Rightarrow> image_info \<Rightarrow> image_info" where
  "generate_filenames now info =
     info\<lparr>tar_name := base_name now info @ ''.tar'',
          zip_name := base_name now info @ ''.zip''\<rparr>"

section \<open>The process and its surroundings\<close>

text \<open>
  Exceptions are values. \<open>KeyboardInterrupt\<close> and \<open>SystemExit\<close> are the two that
  \<open>except Exception\<close> does not catch.
\<close>

datatype exn =
  KeyboardInterrupt | SystemExit int | EOFError | ValueError | IndexError | AttributeError
| OverflowError | OSError | RuntimeError | CalledProcessError | ConfigError

fun is_Exception :: "exn \<Rightarrow> bool" where
  "is_Exception KeyboardInterrupt = False"
| "is_Exception (SystemExit n) = False"
| "is_Exception e = True"

datatype cmd = Argv "string list" | Shell string

datatype outcome = Raised exn | Completed int string

datatype filedata = Text string | Ini "(string \<times> string) list" | Zip "(string \<times> filedata) list"

datatype input_ev = Line string | CtrlC

text \<open>
  What lies outside the process: the files of the working directory and the staging
  directory (a flat map from path to content: every path it holds is a regular file
  that the process may read, replace and delete), the lines waiting on standard input,
  the clock, and the state \<open>daemon\<close> of the container runtime and of the job
  scheduler, of which nothing is assumed.
\<close>

record 'd env =
  fs :: "string \<rightharpoonup> filedata"
  stdin :: "input_ev list"
  clock :: datetime
  daemon :: 'd

text \<open>
  The two libraries whose behaviour is taken as given: \<open>exec\<close> runs an external
  command to its end (\<open>subprocess.run\<close>, \<open>subprocess.Popen\<close>) and gives its return
  code and standard output, or the exception that starting it raised; \<open>cfg_parse\<close> is
  \<open>ConfigParser.read\<close> followed by the view of the \<open>DEFAULT\<close> section that
  \<open>get\<close> gives.
\<close>

record 'd sys =
  exec :: "cmd \<Rightarrow> 'd env \<Rightarrow> outcome \<times> 'd env"
  cfg_parse :: "filedata \<Rightarrow> exn + (string \<rightharpoonup> string)"

text \<open>
  The \<open>DockerImageManager\<close> object together with its surroundings; \<open>trace\<close> lists
  the external commands run so far, oldest first.
\<close>

record 'd manager =
  remote_path :: string
  registry_mirrors :: "string list"
  info :: image_info
  env :: "'d env"
  trace :: "cmd list"

type_synonym ('d, 'a) act = "'d manager \<Rightarrow> (exn + 'a) \<times> 'd manager"

definition ret :: "'a \<Rightarrow> ('d, 'a) act" where
  "ret x = (\<lambda>s. (Inr x, s))"

definition raise :: "exn \<Rightarrow> ('d, 'a) act" where
  "raise e = (\<lambda>s. (Inl e, s))"

definition then_do :: "('d, 'a) act \<Rightarrow> ('a \<Rightarrow> ('d, 'b) act) \<Rightarrow> ('d, 'b) act" where
  "then_do m f = (\<lambda>s. case m s of (Inl e, s') \<Rightarrow> (Inl e, s') | (Inr a, s') \<Rightarrow> f a s')"

definition try_except_Exception :: "('d, 'a) act \<Rightarrow> (exn \<Rightarrow> ('d, 'a) act) \<Rightarrow> ('d, 'a) act" where
  \<comment> \<open>\<open>try: m  except Exception as e: h e\<close>\<close>
  "try_except_Exception m h =
     (\<lambda>s. case m s of
        (Inl e, s') \<Rightarrow> if is_Exception e then h e s' else (Inl e, s')
      | (Inr a, s') \<Rightarrow> (Inr a, s'))"

definition try_except_CalledProcessError :: "('d, 'a) act \<Rightarrow> ('d, 'a) act \<Rightarrow> ('d, 'a) act" where
  \<comment> \<open>\<open>try: m  except subprocess.CalledProcessError: h\<close>\<close>
  "try_except_CalledProcessError m h =
     (\<lambda>s. case m s of
        (Inl e, s') \<Rightarrow> if e = CalledProcessError then h s' else (Inl e, s')
      | (Inr a, s') \<Rightarrow> (Inr a, s'))"

definition modify_info :: "(image_info \<Rightarrow> image_info) \<Rightarrow> ('d, unit) act" where
  "modify_info f = (\<lambda>s. (Inr (), s\<lparr>info := f (info s)\<rparr>))"

definition subprocess_run :: "'d sys \<Rightarrow> cmd \<Rightarrow> ('d, int \<times> string) act" where
  \<comment> \<open>\<open>subprocess.run(c, capture_output=True, text=True)\<close>: return code and standard output\<close>
  "subprocess_run sy c =
     (\<lambda>s. case exec sy c (env s) of
        (Raised e, w) \<Rightarrow> (Inl e, s\<lparr>env := w, trace := trace s @ [c]\<rparr>)
      | (Completed rc out, w) \<Rightarrow> (Inr (rc, out), s\<lparr>env := w, trace := trace s @ [c]\<rparr>))"

definition subprocess_run_check :: "'d sys \<Rightarrow> cmd \<Rightarrow> ('d, unit) act" where
  \<comment> \<open>\<open>subprocess.run(c, check=True)\<close>\<close>
  "subprocess_run_check sy c =
     then_do (subprocess_run sy c)
       (\<lambda>(rc, out). if rc \<noteq> 0 then raise CalledProcessError else ret ())"

definition DOCKER_CLI :: string where
  "DOCKER_CLI = ''docker''"

definition CONFIG_FILE :: string where
  "CONFIG_FILE = ''config_docker-downlocal.conf''"

subsection \<open>handle_config and create_config_template\<close>

definition template_note :: "string \<times> string" where
  \<comment> \<open>the third entry of the template, a note for the operator, by the UTF-8 bytes of its text\<close>
  "template_note =
     ([CHR 0x23, CHR 0x20, CHR 0xE8, CHR 0xAF, CHR 0xB4, CHR 0xE6, CHR 0x98, CHR 0x8E],
      [CHR 0xE5, CHR 0xA4, CHR 0x9A, CHR 0xE4, CHR 0xB8, CHR 0xAA, CHR 0xE5, CHR 0x8A, CHR 0xA0,
       CHR 0xE9, CHR 0x80, CHR 0x9F, CHR 0xE5, CHR 0x9C, CHR 0xB0, CHR 0xE5, CHR 0x9D, CHR 0x80,
       CHR 0xE7, CHR 0x94, CHR 0xA8, CHR 0xE8, CHR 0x8B, CHR 0xB1, CHR 0xE6, CHR 0x96, CHR 0x87,
       CHR 0xE9, CHR 0x80, CHR 0x97, CHR 0xE5, CHR 0x8F, CHR 0xB7, CHR 0xE5, CHR 0x88, CHR 0x86,
       CHR 0xE9, CHR 0x9A, CHR 0x94])"

definition config_template :: filedata where
  "config_template =
     Ini [(''remote_path'', ''/tmp/docker-images''),
          (''registry_mirrors'', ''https://registry.docker-cn.com,https://mirror.baidubce.com''),
          template_note]"

definition create_config_template :: "('d, unit) act" where
  "create_config_template =
     (\<lambda>s. (Inr (), s\<lparr>env := (env s)\<lparr>fs := (fs (env s))(CONFIG_FILE \<mapsto> config_template)\<rparr>\<rparr>))"

definition get_or :: "(string \<rightharpoonup> string) \<Rightarrow> string \<Rightarrow> string \<Rightarrow> string" where
  \<comment> \<open>\<open>section.get(key, fallback)\<close>\<close>
  "get_or d k fallback = (case d k of None \<Rightarrow> fallback | Some v \<Rightarrow> v)"

definition mirror_list :: "string \<Rightarrow> string list" where
  \<comment> \<open>\<open>[m.strip() for m in entry.split(',') if m.strip()]\<close>\<close>
  "mirror_list entry = map strip (filter (\<lambda>m. strip m \<noteq> []) (split (CHR '','') entry))"

definition handle_config :: "'d sys \<Rightarrow> ('d, unit) act" where
  "handle_config sy =
     (\<lambda>s. if fs (env s) CONFIG_FILE = None
           then then_do create_config_template (\<lambda>_. raise (SystemExit 0)) s
           else (case cfg_parse sy (the (fs (env s) CONFIG_FILE)) of
                   Inl e \<Rightarrow> (Inl e, s)
                 | Inr d \<Rightarrow>
                     (Inr (), s\<lparr>remote_path := get_or d ''remote_path'' ''/tmp/docker-images'',
                               registry_mirrors := mirror_list (get_or d ''registry_mirrors'' [])\<rparr>)))"

subsection \<open>The prompts\<close>

definition arch_map :: "string \<rightharpoonup> string" where
  "arch_map = [''1'' \<mapsto> ''amd64'', ''2'' \<mapsto> ''arm64'', ''3'' \<mapsto> ''arm/v7'']"

fun select_architecture_loop :: "input_ev list \<Rightarrow> (exn + string) \<times> input_ev list" where
  "select_architecture_loop [] = (Inl EOFError, [])"
| "select_architecture_loop (CtrlC # rest) = (Inl KeyboardInterrupt, rest)"
| "select_architecture_loop (Line l # rest) =
     (case arch_map (strip l) of
        Some a \<Rightarrow> (Inr a, rest)
      | None \<Rightarrow> select_architecture_loop rest)"

definition select_architecture :: "('d, unit) act" where
  "select_architecture =
     (\<lambda>s. case select_architecture_loop (stdin (env s)) of
        (Inl e, rest) \<Rightarrow> (Inl e, s\<lparr>env := (env s)\<lparr>stdin := rest\<rparr>\<rparr>)
      | (Inr a, rest) \<Rightarrow>
          (Inr (), s\<lparr>env := (env s)\<lparr>stdin := rest\<rparr>, info := (info s)\<lparr>arch := a\<rparr>\<rparr>))"

definition latin1_upper :: string where
  "latin1_upper =
     [CHR 0xC0, CHR 0xC1, CHR 0xC2, CHR 0xC3, CHR 0xC4, CHR 0xC5, CHR 0xC6, CHR 0xC7,
      CHR 0xC8, CHR 0xC9, CHR 0xCA, CHR 0xCB, CHR 0xCC, CHR 0xCD, CHR 0xCE, CHR 0xCF,
      CHR 0xD0, CHR 0xD1, CHR 0xD2, CHR 0xD3, CHR 0xD4, CHR 0xD5, CHR 0xD6,
      CHR 0xD8, CHR 0xD9, CHR 0xDA, CHR 0xDB, CHR 0xDC, CHR 0xDD, CHR 0xDE]"

definition latin1_lower :: string where
  "latin1_lower =
     [CHR 0xE0, CHR 0xE1, CHR 0xE2, CHR 0xE3, CHR 0xE4, CHR 0xE5, CHR 0xE6, CHR 0xE7,
      CHR 0xE8, CHR 0xE9, CHR 0xEA, CHR 0xEB, CHR 0xEC, CHR 0xED, CHR 0xEE, CHR 0xEF,
      CHR 0xF0, CHR 0xF1, CHR 0xF2, CHR 0xF3, CHR 0xF4, CHR 0xF5, CHR 0xF6,
      CHR 0xF8, CHR 0xF9, CHR 0xFA, CHR 0xFB, CHR 0xFC, CHR 0xFD, CHR 0xFE]"

definition lower :: "string \<Rightarrow> string" where
  \<comment> \<open>\<open>str.lower()\<close>\<close>
  "lower s =
     map (\<lambda>c. case map_of (zip (ascii_upper @ latin1_upper) (ascii_lower @ latin1_lower)) c of
                 None \<Rightarrow> c | Some l \<Rightarrow> l) s"

definition isdigit :: "string \<Rightarrow> bool" where
  \<comment> \<open>\<open>str.isdigit()\<close>: also true of the superscript digits, which \<open>int\<close> rejects\<close>
  "isdigit s =
     (if s = [] then False
      else list_all (\<lambda>c. c \<in> set (ascii_digits @ [CHR 0xB2, CHR 0xB3, CHR 0xB9])) s)"

definition digit_val :: "char \<Rightarrow> nat" where
  "digit_val c = length (takeWhile (\<lambda>d. d \<noteq> c) ascii_digits)"

definition py_int :: "string \<Rightarrow> exn + int" where
  \<comment> \<open>\<open>int(s)\<close> on a string that passed \<open>isdigit\<close>\<close>
  "py_int s =
     (if list_all (\<lambda>c. c \<in> set ascii_digits) s
      then Inr (int (foldl (\<lambda>a c. 10 * a + digit_val c) 0 s))
      else Inl ValueError)"

fun select_mirror_loop :: "string list \<Rightarrow> input_ev list \<Rightarrow> (exn + string option) \<times> input_ev list" where
  "select_mirror_loop ms [] = (Inl EOFError, [])"
| "select_mirror_loop ms (CtrlC # rest) = (Inl KeyboardInterrupt, rest)"
| "select_mirror_loop ms (Line l # rest) =
     (let choice = lower (strip l) in
      if choice = ''n'' then (Inr None, rest)
      else if isdigit choice
      then (case py_int choice of
              Inl e \<Rightarrow> (Inl e, rest)
            | Inr n \<Rightarrow>
                (let index = n - 1 in
                 if 0 \<le> index \<and> index < int (length ms)
                 then (Inr (Some (ms ! nat index)), rest)
                 else select_mirror_loop ms rest))
      else select_mirror_loop ms rest)"

definition select_mirror :: "('d, unit) act" where
  "select_mirror =
     (\<lambda>s. if registry_mirrors s = [] then (Inr (), s)
           else (case select_mirror_loop (registry_mirrors s) (stdin (env s)) of
                   (Inl e, rest) \<Rightarrow> (Inl e, s\<lparr>env := (env s)\<lparr>stdin := rest\<rparr>\<rparr>)
                 | (Inr None, rest) \<Rightarrow> (Inr (), s\<lparr>env := (env s)\<lparr>stdin := rest\<rparr>\<rparr>)
                 | (Inr (Some m), rest) \<Rightarrow>
                     (Inr (), s\<lparr>env := (env s)\<lparr>stdin := rest\<rparr>,
                               info := (info s)\<lparr>mirror := Some m\<rparr>\<rparr>)))"

fun image_prompt_loop :: "input_ev list \<Rightarrow> (exn + string) \<times> input_ev list" where
  \<comment> \<open>the loop of \<open>run\<close> that asks for the image until the answer is not blank\<close>
  "image_prompt_loop [] = (Inl EOFError, [])"
| "image_prompt_loop (CtrlC # rest) = (Inl KeyboardInterrupt, rest)"
| "image_prompt_loop (Line l # rest) =
     (if strip l \<noteq> [] then (Inr (strip l), rest) else image_prompt_loop rest)"

subsection \<open>check_image_update\<close>

text \<open>
  \<open>re.search(r'"digest":\s*"(\w+:\w+)"', text)\<close>. At a given start the match is
  decided without backtracking: the character that must follow \<open>\s*\<close> is a double
  quote, the one after the first \<open>\w+\<close> a colon and the one after the second a double
  quote, and none of them is in the class repeated before it, so each repetition takes
  the longest run. The search tries the starts from left to right.
\<close>

definition dquote :: char where
  "dquote = CHR 0x22"

definition digest_key :: string where
  "digest_key = [dquote] @ ''digest'' @ [dquote] @ '':''"

fun match_prefix :: "string \<Rightarrow> string \<Rightarrow> string option" where
  \<comment> \<open>what is left of the text after the literal, if the text starts with it\<close>
  "match_prefix [] s = Some s"
| "match_prefix (p # ps) [] = None"
| "match_prefix (p # ps) (c # cs) = (if p = c then match_prefix ps cs else None)"

definition match_digest_at :: "string \<Rightarrow> string option" where
  "match_digest_at s =
     (case match_prefix digest_key s of
        None \<Rightarrow> None
      | Some r \<Rightarrow>
          (case dropWhile is_space r of
             [] \<Rightarrow> None
           | q # r2 \<Rightarrow>
               if q \<noteq> dquote then None
               else (let a = takeWhile is_word r2 in
                     if a = [] then None
                     else (case dropWhile is_word r2 of
                             [] \<Rightarrow> None
                           | k # r4 \<Rightarrow>
                               if k \<noteq> CHR '':'' then None
                               else (let b = takeWhile is_word r4 in
                                     if b = [] then None
                                     else (case dropWhile is_word r4 of
                                             [] \<Rightarrow> None
                                           | e # r6 \<Rightarrow>
                                               if e = dquote then Some (a @ '':'' @ b)
                                               else None))))))"

fun re_search_digest :: "string \<Rightarrow> string option" where
  \<comment> \<open>group 1 of the leftmost match, \<open>None\<close> when \<open>re.search\<close> gives \<open>None\<close>\<close>
  "re_search_digest [] = match_digest_at []"
| "re_search_digest (c # cs) =
     (case match_digest_at (c # cs) of
        Some g \<Rightarrow> Some g
      | None \<Rightarrow> re_search_digest cs)"

definition nth_opt :: "'a list \<Rightarrow> nat \<Rightarrow> 'a option" where
  \<comment> \<open>\<open>xs[i]\<close> for \<open>i \<ge> 0\<close>; \<open>None\<close> where Python raises \<open>IndexError\<close>\<close>
  "nth_opt xs i = (if i < length xs then Some (xs ! i) else None)"

definition inspect_cmd :: "image_info \<Rightarrow> cmd" where
  "inspect_cmd i =
     Argv [DOCKER_CLI, ''inspect'', ''--format'', ''{{.Id}}'',
           get_pull_reference i @ '':'' @ original_tag i]"

definition manifest_cmd :: "image_info \<Rightarrow> cmd" where
  "manifest_cmd i =
     Argv [DOCKER_CLI, ''manifest'', ''inspect'', original_name i @ '':'' @ original_tag i]"

definition compare_digests :: "string \<Rightarrow> string \<Rightarrow> ('d, bool) act" where
  \<comment> \<open>the lines under the comment that announces the comparison of the digests\<close>
  "compare_digests result_stdout manifest_stdout =
     (case nth_opt (split (CHR '':'') (strip result_stdout)) 1 of
        None \<Rightarrow> raise IndexError
      | Some local_digest \<Rightarrow>
          (case re_search_digest manifest_stdout of
             None \<Rightarrow> raise AttributeError
           | Some remote_digest \<Rightarrow> ret (local_digest \<noteq> remote_digest)))"

definition check_image_update_body :: "'d sys \<Rightarrow> ('d, bool) act" where
  "check_image_update_body sy =
     (\<lambda>s. then_do (subprocess_run sy (inspect_cmd (info s)))
       (\<lambda>(returncode, result_stdout).
          if returncode \<noteq> 0 then ret True
          else then_do (subprocess_run sy (manifest_cmd (info s)))
                 (\<lambda>(manifest_returncode, manifest_stdout).
                    if manifest_returncode \<noteq> 0 then ret True
                    else compare_digests result_stdout manifest_stdout)) s)"

definition check_image_update :: "'d sys \<Rightarrow> ('d, bool) act" where
  "check_image_update sy = try_except_Exception (check_image_update_body sy) (\<lambda>e. ret True)"

subsection \<open>pull_image and rename_image\<close>

definition pull_ref_of :: "image_info \<Rightarrow> string" where
  "pull_ref_of i = get_pull_reference i @ '':'' @ original_tag i"

definition pull_cmd :: "image_info \<Rightarrow> cmd" where
  "pull_cmd i = Argv [DOCKER_CLI, ''pull'', ''--platform'', ''linux/'' @ arch i, pull_ref_of i]"

definition pull_image :: "'d sys \<Rightarrow> ('d, unit) act" where
  "pull_image sy =
     then_do (check_image_update sy)
       (\<lambda>update. if \<not> update then ret ()
          else (\<lambda>s. then_do (subprocess_run sy (pull_cmd (info s)))
                  (\<lambda>(returncode, output).
                     if returncode \<noteq> 0 then raise RuntimeError
                     else modify_info (\<lambda>i. i\<lparr>pulled_ref := pull_ref_of i\<rparr>)) s))"

definition original_ref :: "image_info \<Rightarrow> string" where
  "original_ref i = original_name i @ '':'' @ original_tag i"

definition rename_image :: "'d sys \<Rightarrow> ('d, unit) act" where
  "rename_image sy =
     (\<lambda>s. if \<not> truthy (mirror (info s)) then (Inr (), s)
           else then_do (subprocess_run_check sy
                           (Argv [DOCKER_CLI, ''tag'', pulled_ref (info s), original_ref (info s)]))
                  (\<lambda>_. then_do (subprocess_run_check sy
                                   (Argv [DOCKER_CLI, ''rmi'', pulled_ref (info s)]))
                          (\<lambda>_. modify_info (\<lambda>i. i\<lparr>pulled_ref := original_ref i\<rparr>))) s)"

subsection \<open>The archive\<close>

definition os_path_exists :: "(string \<rightharpoonup> filedata) \<Rightarrow> string \<Rightarrow> bool" where
  "os_path_exists f p = (f p \<noteq> None)"

definition os_remove :: "(string \<rightharpoonup> filedata) \<Rightarrow> string \<Rightarrow> exn + (string \<rightharpoonup> filedata)" where
  \<comment> \<open>\<open>os.remove(p)\<close>: \<open>FileNotFoundError\<close>, an \<open>OSError\<close>, when nothing is at \<open>p\<close>\<close>
  "os_remove f p = (case f p of None \<Rightarrow> Inl OSError | Some c \<Rightarrow> Inr (f(p := None)))"

definition os_path_basename :: "string \<Rightarrow> string" where
  "os_path_basename p = rev (takeWhile (\<lambda>c. c \<noteq> CHR ''/'') (rev p))"

definition os_path_join :: "string \<Rightarrow> string \<Rightarrow> string" where
  "os_path_join a b =
     (if take 1 b = ''/'' then b
      else if a = [] then b
      else if last a = CHR ''/'' then a @ b
      else a @ ''/'' @ b)"

definition set_filenames :: "('d, unit) act" where
  \<comment> \<open>\<open>generate_filenames\<close> as a step of the run: the time is read from the clock\<close>
  "set_filenames = (\<lambda>s. modify_info (generate_filenames (clock (env s))) s)"

definition create_tar_package :: "'d sys \<Rightarrow> ('d, unit) act" where
  "create_tar_package sy =
     (\<lambda>s. then_do (subprocess_run_check sy
                     (Argv [DOCKER_CLI, ''save'', ''-o'', tar_name (info s), pulled_ref (info s)]))
            (\<lambda>_ s'. if os_path_exists (fs (env s')) (tar_name (info s')) then (Inr (), s')
                     else (Inl OSError, s')) s)"

definition compress_to_zip :: "('d, unit) act" where
  \<comment> \<open>opening the archive for writing creates it empty; then the tar file is added\<close>
  "compress_to_zip =
     (\<lambda>s. let tar = tar_name (info s); zip = zip_name (info s);
               f1 = (fs (env s))(zip \<mapsto> Zip [])
           in (case f1 tar of
                 None \<Rightarrow> (Inl OSError, s\<lparr>env := (env s)\<lparr>fs := f1\<rparr>\<rparr>)
               | Some c \<Rightarrow>
                   (Inr (), s\<lparr>env := (env s)\<lparr>fs := f1(zip \<mapsto> Zip [(os_path_basename tar, c)])\<rparr>\<rparr>)))"

definition transfer_zip_file :: "('d, unit) act" where
  "transfer_zip_file =
     (\<lambda>s. let f = fs (env s); zip = zip_name (info s) in
           if remote_path s = [] then (Inl OSError, s)
           else if os_path_exists f (remote_path s) then (Inl OSError, s)
           else (case f zip of
                   None \<Rightarrow> (Inl OSError, s)
                 | Some c \<Rightarrow>
                     (Inr (), s\<lparr>env := (env s)\<lparr>fs :=
                        (f(os_path_join (remote_path s) zip \<mapsto> c))(zip := None)\<rparr>\<rparr>)))"

subsection \<open>clean_temp_files\<close>

definition remove_if_exists :: "string \<Rightarrow> ('d, unit) act" where
  \<comment> \<open>\<open>if os.path.exists(p): os.remove(p)\<close>\<close>
  "remove_if_exists p =
     (\<lambda>s. if os_path_exists (fs (env s)) p
           then (case os_remove (fs (env s)) p of
                   Inl e \<Rightarrow> (Inl e, s)
                 | Inr f \<Rightarrow> (Inr (), s\<lparr>env := (env s)\<lparr>fs := f\<rparr>\<rparr>))
           else (Inr (), s))"

definition clean_temp_files :: "('d, unit) act" where
  "clean_temp_files =
     (\<lambda>s. then_do (remove_if_exists (tar_name (info s)))
             (\<lambda>_. remove_if_exists (zip_name (info s))) s)"

subsection \<open>clean_image\<close>

definition ps_cmd :: "image_info \<Rightarrow> cmd" where
  "ps_cmd i = Argv [DOCKER_CLI, ''ps'', ''-a'', ''-q'', ''--filter'', ''ancestor='' @ pulled_ref i]"

definition rmi_cmd :: "image_info \<Rightarrow> cmd" where
  "rmi_cmd i = Argv [DOCKER_CLI, ''rmi'', pulled_ref i]"

definition check_container_usage :: "'d sys \<Rightarrow> ('d, bool) act" where
  "check_container_usage sy =
     (\<lambda>s. then_do (subprocess_run sy (ps_cmd (info s)))
             (\<lambda>(returncode, out). ret (strip out \<noteq> [])) s)"

definition is_leap :: "nat \<Rightarrow> bool" where
  "is_leap y = (if y mod 400 = 0 then True else if y mod 100 = 0 then False else y mod 4 = 0)"

definition days_in_month :: "nat \<Rightarrow> nat \<Rightarrow> nat" where
  "days_in_month y m =
     (if m = 2 then (if is_leap y then 29 else 28)
      else if m \<in> {4, 6, 9, 11} then 30 else 31)"

definition plus_24h :: "datetime \<Rightarrow> exn + datetime" where
  \<comment> \<open>\<open>t + timedelta(hours=24)\<close>: the next day at the same time; no date after year 9999\<close>
  "plus_24h t =
     (if day t < days_in_month (year t) (month t) then Inr (t\<lparr>day := day t + 1\<rparr>)
      else if month t < 12 then Inr (t\<lparr>month := month t + 1, day := 1\<rparr>)
      else if year t < 9999 then Inr (t\<lparr>year := year t + 1, month := 1, day := 1\<rparr>)
      else Inl OverflowError)"

definition strftime_at :: "datetime \<Rightarrow> string" where
  \<comment> \<open>\<open>strftime("%H:%M %Y-%m-%d")\<close>\<close>
  "strftime_at t =
     pad2 (hour t) @ '':'' @ pad2 (minute t) @ '' '' @
     pad4 (year t) @ ''-'' @ pad2 (month t) @ ''-'' @ pad2 (day t)"

definition at_cmd :: "image_info \<Rightarrow> datetime \<Rightarrow> cmd" where
  "at_cmd i t =
     Shell (''echo '' @ [dquote] @ DOCKER_CLI @ '' rmi '' @ pulled_ref i @ [dquote] @
            '' | at '' @ strftime_at t)"

fun re_search_job :: "string \<Rightarrow> bool" where
  \<comment> \<open>whether \<open>re.search(r'job (\d+)', text)\<close> finds a match\<close>
  "re_search_job [] = False"
| "re_search_job (c # cs) =
     (case match_prefix ''job '' (c # cs) of
        Some (d # r) \<Rightarrow> if d \<in> set ascii_digits then True else re_search_job cs
      | _ \<Rightarrow> re_search_job cs)"

definition schedule_cleanup :: "'d sys \<Rightarrow> ('d, unit) act" where
  "schedule_cleanup sy =
     try_except_Exception
       (\<lambda>s. case plus_24h (clock (env s)) of
               Inl e \<Rightarrow> (Inl e, s)
             | Inr deletion_time \<Rightarrow>
                 then_do (subprocess_run sy (at_cmd (info s) deletion_time))
                   (\<lambda>(returncode, out).
                      if returncode = 0
                      then (if re_search_job out then ret () else raise AttributeError)
                      else ret ()) s)
       (\<lambda>e. ret ())"

definition clean_image :: "'d sys \<Rightarrow> ('d, unit) act" where
  "clean_image sy =
     then_do (check_container_usage sy)
       (\<lambda>in_use. if in_use then ret ()
          else try_except_CalledProcessError
                 (\<lambda>s. subprocess_run_check sy (rmi_cmd (info s)) s)
                 (schedule_cleanup sy))"

subsection \<open>run\<close>

definition read_image :: "string option \<Rightarrow> ('d, unit) act" where
  \<comment> \<open>the image comes from the \<open>--image\<close> option if it is given and not empty, else from the prompt\<close>
  "read_image image_arg =
     (\<lambda>s. if truthy image_arg then modify_info (parse_image_input (the image_arg)) s
           else (case image_prompt_loop (stdin (env s)) of
                   (Inl e, rest) \<Rightarrow> (Inl e, s\<lparr>env := (env s)\<lparr>stdin := rest\<rparr>\<rparr>)
                 | (Inr input_str, rest) \<Rightarrow>
                     modify_info (parse_image_input input_str)
                       (s\<lparr>env := (env s)\<lparr>stdin := rest\<rparr>\<rparr>)))"

definition pipeline :: "'d sys \<Rightarrow> string option \<Rightarrow> ('d, unit) act" where
  \<comment> \<open>the body of the \<open>try\<close> statement of \<open>run\<close>\<close>
  "pipeline sy image_arg =
     then_do (handle_config sy) (\<lambda>_.
     then_do (read_image image_arg) (\<lambda>_.
     then_do select_architecture (\<lambda>_.
     then_do select_mirror (\<lambda>_.
     then_do (pull_image sy) (\<lambda>_.
     then_do (\<lambda>s. if truthy (mirror (info s)) then rename_image sy s else (Inr (), s)) (\<lambda>_.
     then_do set_filenames (\<lambda>_.
     then_do (create_tar_package sy) (\<lambda>_.
     then_do compress_to_zip (\<lambda>_.
     then_do transfer_zip_file (\<lambda>_.
     then_do (clean_image sy) (\<lambda>_.
     clean_temp_files)))))))))))"

definition cleanup_then_exit :: "int \<Rightarrow> 'd manager \<Rightarrow> int \<times> 'd manager" where
  \<comment> \<open>a handler of \<open>run\<close>: \<open>self.clean_temp_files(); sys.exit(status)\<close>. An exception
      that leaves the handler is caught by nothing, and the process ends with status 1.\<close>
  "cleanup_then_exit status s =
     (case clean_temp_files s of
        (Inr u, s') \<Rightarrow> (status, s')
      | (Inl e, s') \<Rightarrow> (1, s'))"

definition run :: "'d sys \<Rightarrow> string option \<Rightarrow> 'd manager \<Rightarrow> int \<times> 'd manager" where
  \<comment> \<open>the exit status of the process and the state it leaves\<close>
  "run sy image_arg s =
     (case pipeline sy image_arg s of
        (Inr u, s') \<Rightarrow> (0, s')
      | (Inl KeyboardInterrupt, s') \<Rightarrow> cleanup_then_exit 130 s'
      | (Inl (SystemExit n), s') \<Rightarrow> (n, s')
      | (Inl e, s') \<Rightarrow> cleanup_then_exit 1 s')"

definition init_manager :: "'d env \<Rightarrow> 'd manager" where
  \<comment> \<open>\<open>DockerImageManager()\<close> in the surroundings \<open>w\<close>\<close>
  "init_manager w =
     \<lparr>remote_path = [], registry_mirrors = [], info = init_info, env = w, trace = []\<rparr>"

subsection \<open>What a run has done\<close>

text \<open>
  The only shell command of the script is the one that hands the deferred removal to
  \<open>at\<close>.
\<close>

definition deferred_removal_attempted :: "'d manager \<Rightarrow> bool" where
  "deferred_removal_attempted s = list_ex (\<lambda>c. case c of Shell l \<Rightarrow> True | Argv a \<Rightarrow> False) (trace s)"

text \<open>
  Two relations between records of a run: the name, the tag and the two file names are
  the same; the two file names are the ones generated at a given time.
\<close>

definition same_names :: "image_info \<Rightarrow> image_info \<Rightarrow> bool" where
  "same_names i j =
     (original_name j = original_name i \<and> original_tag j = original_tag i
      \<and> tar_name j = tar_name i \<and> zip_name j = zip_name i)"

definition named_at :: "datetime \<Rightarrow> image_info \<Rightarrow> bool" where
  "named_at now i =
     (tar_name i = base_name now i @ ''.tar'' \<and> zip_name i = base_name now i @ ''.zip'')"

section \<open>Concrete surroundings\<close>

text \<open>The inputs at which the theorems below are evaluated.\<close>

definition noon :: datetime where
  "noon = \<lparr>year = 2024, month = 3, day = 9, hour = 12, minute = 0, second = 5\<rparr>"

definition quiet_env :: "unit env" where
  "quiet_env = \<lparr>fs = Map.empty, stdin = [], clock = noon, daemon = ()\<rparr>"

definition reply_by_subcommand :: "(string \<rightharpoonup> outcome) \<Rightarrow> cmd \<Rightarrow> unit env \<Rightarrow> outcome \<times> unit env" where
  \<comment> \<open>a runtime that answers each subcommand from a table, and succeeds silently otherwise\<close>
  "reply_by_subcommand tbl c w =
     (case c of
        Argv a \<Rightarrow> (case tbl (a ! 1) of None \<Rightarrow> (Completed 0 [], w) | Some r \<Rightarrow> (r, w))
      | Shell l \<Rightarrow> (case tbl ''at'' of None \<Rightarrow> (Completed 0 [], w) | Some r \<Rightarrow> (r, w)))"

definition no_config :: "filedata \<Rightarrow> exn + (string \<rightharpoonup> string)" where
  "no_config f = Inr Map.empty"

definition temp_state :: "unit manager" where
  \<comment> \<open>a run that has left its tar file behind, next to a file of the operator\<close>
  "temp_state =
     \<lparr>remote_path = ''/srv/stage'', registry_mirrors = [],
      info = init_info\<lparr>tar_name := ''a.tar'', zip_name := ''a.zip''\<rparr>,
      env = quiet_env\<lparr>fs := [''a.tar'' \<mapsto> Text ''t'', ''notes.txt'' \<mapsto> Text ''n'']\<rparr>,
      trace = []\<rparr>"

definition nginx_state :: "unit manager" where
  \<comment> \<open>the image \<open>nginx\<close> has been read, nothing has been pulled yet\<close>
  "nginx_state = (init_manager quiet_env)\<lparr>info := init_info\<lparr>original_name := ''nginx''\<rparr>\<rparr>"

definition pulled_state :: "unit manager" where
  \<comment> \<open>the image has been pulled and archived\<close>
  "pulled_state =
     (init_manager quiet_env)\<lparr>info := init_info\<lparr>original_name := ''nginx'',
                                                 pulled_ref := ''nginx:latest''\<rparr>\<rparr>"

definition sys_of :: "(string \<rightharpoonup> outcome) \<Rightarrow> unit sys" where
  "sys_of tbl = \<lparr>exec = reply_by_subcommand tbl, cfg_parse = no_config\<rparr>"

definition busy_sys :: "unit sys" where
  \<comment> \<open>\<open>docker ps\<close> lists one container that uses the image\<close>
  "busy_sys = sys_of [''ps'' \<mapsto> Completed 0 (''3f2a9c1d0b7e'' @ [CHR 0x0A])]"

definition stuck_sys :: "unit sys" where
  \<comment> \<open>no container uses the image, \<open>docker rmi\<close> fails, and \<open>at\<close> accepts the job\<close>
  "stuck_sys =
     sys_of [''ps'' \<mapsto> Completed 0 [], ''rmi'' \<mapsto> Completed 1 [],
             ''at'' \<mapsto> Completed 0 ''job 7 at Sun Mar 10 12:00:00 2024'']"

definition manifest_json :: string where
  \<comment> \<open>a manifest whose digest entry is \<open>"digest": "sha256:0a1b2c"\<close>\<close>
  "manifest_json =
     ''{ '' @ [dquote] @ ''digest'' @ [dquote] @ '': '' @ [dquote] @ ''sha256:0a1b2c'' @
     [dquote] @ '' }''"

definition same_digest_sys :: "unit sys" where
  \<comment> \<open>the local image id and the remote manifest carry the same digest\<close>
  "same_digest_sys =
     sys_of [''inspect'' \<mapsto> Completed 0 (''sha256:0a1b2c'' @ [CHR 0x0A]),
             ''manifest'' \<mapsto> Completed 0 manifest_json]"

definition no_local_sys :: "unit sys" where
  \<comment> \<open>the image is not present locally: \<open>docker inspect\<close> fails\<close>
  "no_local_sys = sys_of [''inspect'' \<mapsto> Completed 1 []]"

definition no_remote_sys :: "unit sys" where
  \<comment> \<open>the registry cannot be reached: \<open>docker manifest inspect\<close> fails\<close>
  "no_remote_sys =
     sys_of [''inspect'' \<mapsto> Completed 0 ''sha256:0a1b2c'', ''manifest'' \<mapsto> Completed 1 []]"

definition garbled_sys :: "unit sys" where
  \<comment> \<open>both commands succeed, but the image id has no colon and the manifest no digest\<close>
  "garbled_sys =
     sys_of [''inspect'' \<mapsto> Completed 0 ''0a1b2c'', ''manifest'' \<mapsto> Completed 0 ''{}'']"

definition no_docker_sys :: "unit sys" where
  \<comment> \<open>the runtime is not installed: starting it raises\<close>
  "no_docker_sys = sys_of [''inspect'' \<mapsto> Raised OSError]"

definition read_ini :: "filedata \<Rightarrow> exn + (string \<rightharpoonup> string)" where
  "read_ini f = (case f of Ini kv \<Rightarrow> Inr (map_of kv) | Text t \<Rightarrow> Inl ConfigError
                 | Zip z \<Rightarrow> Inl ConfigError)"

definition ini_sys :: "unit sys" where
  "ini_sys = \<lparr>exec = reply_by_subcommand Map.empty, cfg_parse = read_ini\<rparr>"

definition operator_config :: filedata where
  "operator_config =
     Ini [(''remote_path'', ''/srv/stage''),
          (''registry_mirrors'', '' https://a.example , ,https://b.example'')]"

definition configured_env :: "input_ev list \<Rightarrow> unit env" where
  \<comment> \<open>the configuration file is in place and the operator types the given lines\<close>
  "configured_env lines = quiet_env\<lparr>fs := [CONFIG_FILE \<mapsto> operator_config], stdin := lines\<rparr>"

definition next_noon :: datetime where
  "next_noon = \<lparr>year = 2024, month = 3, day = 10, hour = 12, minute = 0, second = 5\<rparr>"

section \<open>Facts about the string functions\<close>

lemmas class_defs = name_class_def is_space_def is_word_def ascii_lower_def ascii_upper_def
  ascii_digits_def latin1_word_def

lemma split1_first: "sep \<notin> set n \<Longrightarrow> split1 sep (n @ sep # t) = (n, t)"
  by (induction n) (auto simp: split1_def)

lemma re_sub_name_nth:
  "i < length x \<Longrightarrow> re_sub_name x ! i = (if name_class (x ! i) then x ! i else CHR ''_'')"
  by (simp add: re_sub_name_def)

lemma mirror_list_nonempty: "m \<in> set (mirror_list e) \<Longrightarrow> m \<noteq> []"
  by (auto simp: mirror_list_def)

lemma generate_filenames_pattern:
  "tar_name (generate_filenames now i) =
     safe_name (original_name i) @ ''_'' @ original_tag i @ ''_'' @ arch i @ ''_'' @
     strftime_stamp now @ ''.tar''
   \<and> zip_name (generate_filenames now i) =
     safe_name (original_name i) @ ''_'' @ original_tag i @ ''_'' @ arch i @ ''_'' @
     strftime_stamp now @ ''.zip''"
  by (simp add: generate_filenames_def base_name_def)

lemma safe_name_no_separator:
  "CHR ''/'' \<notin> set (safe_name n) \<and> CHR '':'' \<notin> set (safe_name n)"
  by (auto simp: safe_name_def)

lemma strftime_stamp_noon: "strftime_stamp noon = ''20240309_120005''"
  by (simp add: strftime_stamp_def noon_def pad4_def pad2_def digit_def ascii_digits_def)

lemma pick_arm: "select_architecture_loop [Line ''3''] = (Inr ''arm/v7'', [])"
  by (simp add: arch_map_def strip_def is_space_def)

lemma re_sub_name_ex1: "re_sub_name ''my repo'' = ''my_repo''"
  by (simp add: re_sub_name_def class_defs)

lemma re_sub_name_ex2: "re_sub_name ''a b/c'' = ''a_b/c''"
  by (simp add: re_sub_name_def class_defs)

section \<open>Facts about the steps\<close>

lemmas act_defs = ret_def raise_def then_do_def try_except_Exception_def
  try_except_CalledProcessError_def modify_info_def subprocess_run_def subprocess_run_check_def

lemma split_no_sep: "w \<in> set (split sep s) \<Longrightarrow> sep \<notin> set w"
  by (induction s arbitrary: w) (auto split: if_splits list.splits)

lemma nth_opt_mem: "nth_opt xs i = Some x \<Longrightarrow> x \<in> set xs"
  by (auto simp: nth_opt_def split: if_splits)

lemma match_digest_at_colon: "match_digest_at s = Some g \<Longrightarrow> CHR '':'' \<in> set g"
  by (auto simp: match_digest_at_def Let_def split: option.splits list.splits if_splits)

lemma re_search_digest_colon: "re_search_digest s = Some g \<Longrightarrow> CHR '':'' \<in> set g"
  by (induction s) (auto dest: match_digest_at_colon split: option.splits)

lemma last_dropWhile: "dropWhile P xs \<noteq> [] \<Longrightarrow> last (dropWhile P xs) = last xs"
  by (induction xs) (auto split: if_splits)

lemma strip_last: "strip s \<noteq> [] \<Longrightarrow> \<not> is_space (last (strip s))"
  by (simp add: strip_def last_rev hd_dropWhile)

lemma strip_hd: "strip s \<noteq> [] \<Longrightarrow> \<not> is_space (hd (strip s))"
proof -
  assume n: "strip s \<noteq> []"
  let ?t = "dropWhile is_space s"
  from n have d: "dropWhile is_space (rev ?t) \<noteq> []" by (simp add: strip_def)
  have t: "?t \<noteq> []"
  proof
    assume "?t = []"
    with d show False by simp
  qed
  have "hd (strip s) = last (dropWhile is_space (rev ?t))"
    by (simp add: strip_def hd_rev)
  also have "\<dots> = last (rev ?t)" using d by (rule last_dropWhile)
  also have "\<dots> = hd ?t" using t by (simp add: last_rev)
  finally show ?thesis using t by (simp add: hd_dropWhile)
qed

lemma set_strip: "set (strip s) \<subseteq> set s"
  by (auto simp: strip_def dest!: set_dropWhileD)

lemma mirror_list_entries:
  "m \<in> set (mirror_list entry) \<Longrightarrow>
     m \<noteq> [] \<and> \<not> is_space (hd m) \<and> \<not> is_space (last m) \<and> CHR '','' \<notin> set m"
  using set_strip split_no_sep
  by (fastforce simp: mirror_list_def strip_hd strip_last)

lemma check_container_usage_trace:
  "check_container_usage sy s = (r, s1) \<Longrightarrow>
     trace s1 = trace s @ [ps_cmd (info s)] \<and> info s1 = info s
     \<and> remote_path s1 = remote_path s \<and> registry_mirrors s1 = registry_mirrors s"
  by (auto simp: check_container_usage_def act_defs split: prod.splits outcome.splits)

lemma handle_config_raises:
  "handle_config sy s = (Inl e, s') \<Longrightarrow> pipeline sy a s = (Inl e, s')"
  by (simp add: pipeline_def then_do_def)

lemma handle_config_missing:
  "fs (env s) CONFIG_FILE = None \<Longrightarrow>
     handle_config sy s =
       (Inl (SystemExit 0),
        s\<lparr>env := (env s)\<lparr>fs := (fs (env s))(CONFIG_FILE \<mapsto> config_template)\<rparr>\<rparr>)"
  by (simp add: handle_config_def create_config_template_def then_do_def raise_def)

lemma handle_config_present:
  "fs (env s) CONFIG_FILE = Some f \<Longrightarrow> cfg_parse sy f = Inr d \<Longrightarrow>
     handle_config sy s =
       (Inr (), s\<lparr>remote_path := get_or d ''remote_path'' ''/tmp/docker-images'',
                 registry_mirrors := mirror_list (get_or d ''registry_mirrors'' [])\<rparr>)"
  by (simp add: handle_config_def)

lemma pipeline_prompt_fails:
  assumes "handle_config sy s = (Inr (), s1)"
    and "image_prompt_loop (stdin (env s1)) = (Inl e, rest)"
  shows "pipeline sy None s = (Inl e, s1\<lparr>env := (env s1)\<lparr>stdin := rest\<rparr>\<rparr>)"
  using assms by (simp add: pipeline_def then_do_def read_image_def truthy_def)

subsection \<open>Evaluation at the concrete surroundings\<close>

lemma exec_sys_of_argv:
  "exec (sys_of tbl) (Argv a) w =
     (case tbl (a ! 1) of None \<Rightarrow> (Completed 0 [], w) | Some r \<Rightarrow> (r, w))"
  by (simp add: sys_of_def reply_by_subcommand_def)

lemma exec_sys_of_shell:
  "exec (sys_of tbl) (Shell l) w =
     (case tbl ''at'' of None \<Rightarrow> (Completed 0 [], w) | Some r \<Rightarrow> (r, w))"
  by (simp add: sys_of_def reply_by_subcommand_def)

lemma nginx_state_simps:
  "info nginx_state = init_info\<lparr>original_name := ''nginx''\<rparr>"
  "env nginx_state = quiet_env" "trace nginx_state = []"
  by (simp_all add: nginx_state_def init_manager_def)

lemma cmds_nginx:
  "inspect_cmd (init_info\<lparr>original_name := ''nginx''\<rparr>) =
     Argv [''docker'', ''inspect'', ''--format'', ''{{.Id}}'', ''nginx:latest'']"
  "manifest_cmd (init_info\<lparr>original_name := ''nginx''\<rparr>) =
     Argv [''docker'', ''manifest'', ''inspect'', ''nginx:latest'']"
  "pull_cmd (init_info\<lparr>original_name := ''nginx''\<rparr>) =
     Argv [''docker'', ''pull'', ''--platform'', ''linux/amd64'', ''nginx:latest'']"
  by (simp_all add: inspect_cmd_def manifest_cmd_def pull_cmd_def pull_ref_of_def DOCKER_CLI_def
        get_pull_reference_def truthy_def init_info_def)

lemma local_digest_ex:
  "nth_opt (split (CHR '':'') (strip (''sha256:0a1b2c'' @ [CHR 0x0A]))) 1 = Some ''0a1b2c''"
  by (simp add: nth_opt_def strip_def is_space_def)

lemma remote_digest_ex: "re_search_digest manifest_json = Some ''sha256:0a1b2c''"
  by (simp add: manifest_json_def match_digest_at_def digest_key_def dquote_def class_defs)

lemma nth_opt_no_colon: "nth_opt (split (CHR '':'') (strip ''0a1b2c'')) 1 = None"
  by (simp add: nth_opt_def strip_def is_space_def)

lemma pulled_state_simps:
  "info pulled_state = init_info\<lparr>original_name := ''nginx'', pulled_ref := ''nginx:latest''\<rparr>"
  "env pulled_state = quiet_env" "trace pulled_state = []"
  by (simp_all add: pulled_state_def init_manager_def)

lemma cmds_pulled:
  "ps_cmd (init_info\<lparr>original_name := ''nginx'', pulled_ref := ''nginx:latest''\<rparr>) =
     Argv [''docker'', ''ps'', ''-a'', ''-q'', ''--filter'', ''ancestor=nginx:latest'']"
  "rmi_cmd (init_info\<lparr>original_name := ''nginx'', pulled_ref := ''nginx:latest''\<rparr>) =
     Argv [''docker'', ''rmi'', ''nginx:latest'']"
  by (simp_all add: ps_cmd_def rmi_cmd_def DOCKER_CLI_def)

lemma busy_usage:
  "check_container_usage busy_sys pulled_state =
     (Inr True, pulled_state\<lparr>env := quiet_env, trace := [ps_cmd (info pulled_state)]\<rparr>)"
  by (simp add: check_container_usage_def act_defs busy_sys_def exec_sys_of_argv
        pulled_state_simps cmds_pulled strip_def is_space_def)

lemma stuck_usage:
  "check_container_usage stuck_sys pulled_state =
     (Inr False, pulled_state\<lparr>env := quiet_env, trace := [ps_cmd (info pulled_state)]\<rparr>)"
  by (simp add: check_container_usage_def act_defs stuck_sys_def exec_sys_of_argv
        pulled_state_simps cmds_pulled strip_def)

lemma stuck_rmi:
  "exec stuck_sys (rmi_cmd (info pulled_state)) quiet_env = (Completed 1 [], quiet_env)"
  by (simp add: stuck_sys_def exec_sys_of_argv pulled_state_simps cmds_pulled)

lemma plus_24h_noon: "plus_24h (clock quiet_env) = Inr next_noon"
  by (simp add: plus_24h_def quiet_env_def noon_def next_noon_def days_in_month_def)

lemma at_cmd_ex:
  "at_cmd (info pulled_state) next_noon =
     Shell (''echo '' @ [dquote] @ ''docker rmi nginx:latest'' @ [dquote] @ '' | at 12:00 2024-03-10'')"
  by (simp add: at_cmd_def pulled_state_simps DOCKER_CLI_def strftime_at_def next_noon_def
        pad2_def pad4_def digit_def ascii_digits_def)

lemma operator_mirrors:
  "mirror_list '' https://a.example , ,https://b.example'' =
     [''https://a.example'', ''https://b.example'']"
  by (simp add: mirror_list_def strip_def is_space_def)

lemma template_mirrors:
  "mirror_list ''https://registry.docker-cn.com,https://mirror.baidubce.com'' =
     [''https://registry.docker-cn.com'', ''https://mirror.baidubce.com'']"
  by (simp add: mirror_list_def strip_def is_space_def)

lemma configured_fs:
  "fs (env (init_manager (configured_env lines))) CONFIG_FILE = Some operator_config"
  by (simp add: init_manager_def configured_env_def)

lemma read_operator_config:
  "cfg_parse ini_sys operator_config =
     Inr (map_of [(''remote_path'', ''/srv/stage''),
                  (''registry_mirrors'', '' https://a.example , ,https://b.example'')])"
  by (simp add: ini_sys_def read_ini_def operator_config_def)

lemma configured_handle:
  "handle_config ini_sys (init_manager (configured_env lines)) =
     (Inr (), (init_manager (configured_env lines))
        \<lparr>remote_path := ''/srv/stage'',
         registry_mirrors := [''https://a.example'', ''https://b.example'']\<rparr>)"
  using handle_config_present [OF configured_fs read_operator_config, of lines]
  by (simp add: get_or_def operator_mirrors)

lemma interrupted_pipeline:
  "fst (pipeline ini_sys None (init_manager (configured_env [CtrlC]))) = Inl KeyboardInterrupt"
  by (subst pipeline_prompt_fails [OF configured_handle, where e = KeyboardInterrupt and rest = "[]"])
     (simp_all add: init_manager_def configured_env_def)

lemma starved_pipeline:
  "fst (pipeline ini_sys None (init_manager (configured_env []))) = Inl EOFError"
  by (subst pipeline_prompt_fails [OF configured_handle, where e = EOFError and rest = "[]"])
     (simp_all add: init_manager_def configured_env_def)

subsection \<open>What each step does to the record\<close>

lemma then_doE:
  assumes "then_do m f s = (r, s')"
  obtains (raised) e where "m s = (Inl e, s')" "r = Inl e"
        | (went_on) a s1 where "m s = (Inr a, s1)" "f a s1 = (r, s')"
  using assms by (auto simp: then_do_def split: prod.splits sum.splits)

lemma subprocess_run_info: "subprocess_run sy c s = (r, s1) \<Longrightarrow> info s1 = info s"
  by (auto simp: subprocess_run_def split: prod.splits outcome.splits)

lemma subprocess_run_check_info: "subprocess_run_check sy c s = (r, s1) \<Longrightarrow> info s1 = info s"
  by (auto simp: subprocess_run_check_def act_defs split: prod.splits outcome.splits if_splits)

lemma handle_config_info: "handle_config sy s = (r, s1) \<Longrightarrow> info s1 = info s"
  by (auto simp: handle_config_def create_config_template_def act_defs
           split: if_splits sum.splits)

lemma read_image_info:
  "read_image (Some inp) s = (r, s1) \<Longrightarrow> inp \<noteq> [] \<Longrightarrow>
     info s1 = parse_image_input inp (info s)"
  by (auto simp: read_image_def truthy_def modify_info_def)

lemma select_architecture_names:
  "select_architecture s = (r, s1) \<Longrightarrow> same_names (info s) (info s1)"
  by (auto simp: select_architecture_def same_names_def split: prod.splits sum.splits)

lemma select_mirror_names:
  "select_mirror s = (r, s1) \<Longrightarrow> same_names (info s) (info s1)"
  by (auto simp: select_mirror_def same_names_def
           split: prod.splits sum.splits option.splits if_splits)

lemma check_image_update_info: "check_image_update sy s = (r, s1) \<Longrightarrow> info s1 = info s"
  by (auto simp: check_image_update_def check_image_update_body_def act_defs compare_digests_def
           split: prod.splits outcome.splits sum.splits if_splits option.splits)

lemma pull_image_names:
  "pull_image sy s = (r, s1) \<Longrightarrow> same_names (info s) (info s1)"
  unfolding pull_image_def
  by (erule then_doE)
     (auto simp: same_names_def act_defs dest!: check_image_update_info
           split: prod.splits outcome.splits sum.splits if_splits)

lemma rename_image_names:
  "rename_image sy s = (r, s1) \<Longrightarrow> same_names (info s) (info s1)"
  by (auto simp: rename_image_def same_names_def act_defs
           split: prod.splits outcome.splits sum.splits if_splits)

lemma set_filenames_info:
  "set_filenames s = (r, s1) \<Longrightarrow>
     r = Inr () \<and> info s1 = generate_filenames (clock (env s)) (info s)"
  by (auto simp: set_filenames_def modify_info_def)

lemma create_tar_package_info: "create_tar_package sy s = (r, s1) \<Longrightarrow> info s1 = info s"
  by (auto simp: create_tar_package_def act_defs
           split: prod.splits outcome.splits sum.splits if_splits)

lemma compress_to_zip_info: "compress_to_zip s = (r, s1) \<Longrightarrow> info s1 = info s"
  by (auto simp: compress_to_zip_def Let_def split: option.splits)

lemma transfer_zip_file_info: "transfer_zip_file s = (r, s1) \<Longrightarrow> info s1 = info s"
  by (auto simp: transfer_zip_file_def Let_def split: option.splits if_splits)

lemma schedule_cleanup_info: "schedule_cleanup sy s = (r, s1) \<Longrightarrow> info s1 = info s"
  by (auto simp: schedule_cleanup_def act_defs
           split: prod.splits outcome.splits sum.splits if_splits)

lemma clean_image_info: "clean_image sy s = (r, s1) \<Longrightarrow> info s1 = info s"
  unfolding clean_image_def
  by (erule then_doE)
     (auto simp: check_container_usage_def act_defs
           dest!: schedule_cleanup_info
           split: prod.splits outcome.splits sum.splits if_splits)

lemma os_remove_missing: "f p = None \<Longrightarrow> os_remove f p = Inl OSError"
  by (simp add: os_remove_def)

lemma os_remove_present: "f p = Some c \<Longrightarrow> os_remove f p = Inr (f(p := None))"
  by (simp add: os_remove_def)

lemma remove_if_exists_result:
  "remove_if_exists p s = (Inr (), s\<lparr>env := (env s)\<lparr>fs := (fs (env s))(p := None)\<rparr>\<rparr>)"
proof (cases "fs (env s) p")
  case None
  then have "(fs (env s))(p := None) = fs (env s)" by (simp add: fun_upd_idem)
  with None show ?thesis
    by (simp add: remove_if_exists_def os_path_exists_def)
next
  case (Some c)
  then show ?thesis
    by (simp add: remove_if_exists_def os_path_exists_def os_remove_present)
qed

lemma clean_temp_files_result:
  "clean_temp_files s =
     (Inr (), s\<lparr>env := (env s)\<lparr>fs :=
        (\<lambda>p. if p = tar_name (info s) \<or> p = zip_name (info s) then None
             else fs (env s) p)\<rparr>\<rparr>)"
proof -
  have "((fs (env s))(tar_name (info s) := None))(zip_name (info s) := None) =
      (\<lambda>p. if p = tar_name (info s) \<or> p = zip_name (info s) then None else fs (env s) p)"
    by auto
  then show ?thesis
    by (simp add: clean_temp_files_def then_do_def remove_if_exists_result)
qed

lemma clean_temp_files_info: "clean_temp_files s = (r, s1) \<Longrightarrow> info s1 = info s"
  by (auto simp: clean_temp_files_result)

lemma cleanup_then_exit_result:
  "cleanup_then_exit status s = (status, snd (clean_temp_files s))"
  by (simp add: cleanup_then_exit_def clean_temp_files_result)

lemma named_at_generate: "named_at now (generate_filenames now i)"
  by (simp add: named_at_def generate_filenames_def base_name_def)

text \<open>
  Where the run stands when it ends, with the image given on the command line: before the
  image was read, or with the name and the tag as parsed and the file names either
  untouched or generated from them.
\<close>

lemma pipeline_names:
  assumes p: "pipeline sy (Some inp) s = (r, s')" and n: "inp \<noteq> []"
  shows "info s' = info s
     \<or> (original_name (info s') = original_name (parse_image_input inp (info s))
        \<and> original_tag (info s') = original_tag (parse_image_input inp (info s))
        \<and> ((tar_name (info s') = tar_name (info s) \<and> zip_name (info s') = zip_name (info s))
            \<or> (\<exists>now. named_at now (info s'))))"
proof -
  let ?i = "parse_image_input inp (info s)"
  have pt: "tar_name ?i = tar_name (info s) \<and> zip_name ?i = zip_name (info s)"
    by (simp add: parse_image_input_def Let_def split: prod.splits)
  from p show ?thesis
    unfolding pipeline_def
  proof (elim then_doE, goal_cases)
    case (1 e)
    then show ?case by (auto dest: handle_config_info)
  next
    case (2 a1 s1 e)
    then show ?case using n pt by (auto dest!: handle_config_info read_image_info)
  next
    case (3 a1 s1 a2 s2 e)
    then show ?case using n pt
      by (auto simp: same_names_def
               dest!: handle_config_info read_image_info select_architecture_names)
  next
    case (4 a1 s1 a2 s2 a3 s3 e)
    then show ?case using n pt
      by (auto simp: same_names_def
               dest!: handle_config_info read_image_info select_architecture_names
                      select_mirror_names)
  next
    case (5 a1 s1 a2 s2 a3 s3 a4 s4 e)
    then show ?case using n pt
      by (auto simp: same_names_def
               dest!: handle_config_info read_image_info select_architecture_names
                      select_mirror_names pull_image_names)
  next
    case (6 a1 s1 a2 s2 a3 s3 a4 s4 a5 s5 e)
    then show ?case using n pt
      by (auto simp: same_names_def split: if_splits
               dest!: handle_config_info read_image_info select_architecture_names
                      select_mirror_names pull_image_names rename_image_names)
  next
    case (7 a1 s1 a2 s2 a3 s3 a4 s4 a5 s5 a6 s6 e)
    then show ?case by (auto dest!: set_filenames_info)
  next
    case (8 a1 s1 a2 s2 a3 s3 a4 s4 a5 s5 a6 s6 a7 s7 e)
    then have i: "info s' = generate_filenames (clock (env s6)) (info s6)"
      and k: "same_names ?i (info s6)"
      using n
      by (auto simp: same_names_def split: if_splits
               dest!: handle_config_info read_image_info select_architecture_names
                      select_mirror_names pull_image_names rename_image_names
                      set_filenames_info create_tar_package_info)
    from k have "original_name (info s') = original_name ?i"
      "original_tag (info s') = original_tag ?i"
      by (simp_all add: i same_names_def generate_filenames_def)
    moreover have "named_at (clock (env s6)) (info s')"
      unfolding i by (rule named_at_generate)
    ultimately show ?case by blast
  next
    case (9 a1 s1 a2 s2 a3 s3 a4 s4 a5 s5 a6 s6 a7 s7 a8 s8 e)
    then have i: "info s' = generate_filenames (clock (env s6)) (info s6)"
      and k: "same_names ?i (info s6)"
      using n
      by (auto simp: same_names_def split: if_splits
               dest!: handle_config_info read_image_info select_architecture_names
                      select_mirror_names pull_image_names rename_image_names
                      set_filenames_info create_tar_package_info compress_to_zip_info)
    from k have "original_name (info s') = original_name ?i"
      "original_tag (info s') = original_tag ?i"
      by (simp_all add: i same_names_def generate_filenames_def)
    moreover have "named_at (clock (env s6)) (info s')"
      unfolding i by (rule named_at_generate)
    ultimately show ?case by blast
  next
    case (10 a1 s1 a2 s2 a3 s3 a4 s4 a5 s5 a6 s6 a7 s7 a8 s8 a9 s9 e)
    then have i: "info s' = generate_filenames (clock (env s6)) (info s6)"
      and k: "same_names ?i (info s6)"
      using n
      by (auto simp: same_names_def split: if_splits
               dest!: handle_config_info read_image_info select_architecture_names
                      select_mirror_names pull_image_names rename_image_names
                      set_filenames_info create_tar_package_info compress_to_zip_info
                      transfer_zip_file_info)
    from k have "original_name (info s') = original_name ?i"
      "original_tag (info s') = original_tag ?i"
      by (simp_all add: i same_names_def generate_filenames_def)
    moreover have "named_at (clock (env s6)) (info s')"
      unfolding i by (rule named_at_generate)
    ultimately show ?case by blast
  next
    case (11 a1 s1 a2 s2 a3 s3 a4 s4 a5 s5 a6 s6 a7 s7 a8 s8 a9 s9 a10 s10 e)
    then have i: "info s' = generate_filenames (clock (env s6)) (info s6)"
      and k: "same_names ?i (info s6)"
      using n
      by (auto simp: same_names_def split: if_splits
               dest!: handle_config_info read_image_info select_architecture_names
                      select_mirror_names pull_image_names rename_image_names
                      set_filenames_info create_tar_package_info compress_to_zip_info
                      transfer_zip_file_info clean_image_info)
    from k have "original_name (info s') = original_name ?i"
      "original_tag (info s') = original_tag ?i"
      by (simp_all add: i same_names_def generate_filenames_def)
    moreover have "named_at (clock (env s6)) (info s')"
      unfolding i by (rule named_at_generate)
    ultimately show ?case by blast
  next
    case (12 a1 s1 a2 s2 a3 s3 a4 s4 a5 s5 a6 s6 a7 s7 a8 s8 a9 s9 a10 s10 a11 s11)
    then have i: "info s' = generate_filenames (clock (env s6)) (info s6)"
      and k: "same_names ?i (info s6)"
      using n
      by (auto simp: same_names_def split: if_splits
               dest!: handle_config_info read_image_info select_architecture_names
                      select_mirror_names pull_image_names rename_image_names
                      set_filenames_info create_tar_package_info compress_to_zip_info
                      transfer_zip_file_info clean_image_info clean_temp_files_info)
    from k have "original_name (info s') = original_name ?i"
      "original_tag (info s') = original_tag ?i"
      by (simp_all add: i same_names_def generate_filenames_def)
    moreover have "named_at (clock (env s6)) (info s')"
      unfolding i by (rule named_at_generate)
    ultimately show ?case by blast
  qed
qed

subsection \<open>A run that stops when the archive is missing\<close>

text \<open>
  The runtime answers every command with success and writes no file: the run reads the
  image \<open>nginx:1.0:rc/a b$\<close>, the architecture and the mirror, pulls, generates
  the file names and fails on the size of the tar file.
\<close>

lemma exec_ini_sys: "exec ini_sys c w = (Completed 0 [], w)"
  by (cases c) (simp_all add: ini_sys_def reply_by_subcommand_def)

lemma odd_tag_parsed:
  "parse_image_input ''nginx:1.0:rc/a b$'' init_info =
     init_info\<lparr>original_name := ''nginx'', original_tag := ''1.0:rc/a b$''\<rparr>"
  by (simp add: parse_image_input_def split1_def Let_def re_sub_name_def class_defs)

lemma choose_amd64: "select_architecture_loop [Line ''1'', Line ''n''] = (Inr ''amd64'', [Line ''n''])"
  by (simp add: arch_map_def strip_def is_space_def)

lemma choose_no_mirror:
  "select_mirror_loop ms [Line ''n''] = (Inr None, [])"
  by (simp add: strip_def is_space_def lower_def ascii_upper_def ascii_lower_def
        latin1_upper_def latin1_lower_def)

lemma init_manager_fields:
  "info (init_manager w) = init_info" "env (init_manager w) = w" "trace (init_manager w) = []"
  by (simp_all add: init_manager_def)

lemma configured_env_fields:
  "stdin (configured_env l) = l" "clock (configured_env l) = noon"
  "fs (configured_env l) = [CONFIG_FILE \<mapsto> operator_config]"
  by (simp_all add: configured_env_def quiet_env_def)

lemma init_info_fields:
  "original_name init_info = []" "original_tag init_info = ''latest''"
  "arch init_info = ''amd64''" "mirror init_info = None"
  "tar_name init_info = []" "zip_name init_info = []" "pulled_ref init_info = []"
  by (simp_all add: init_info_def)

lemma no_local_digest: "nth_opt (split (CHR '':'') (strip [])) (Suc 0) = None"
  by (simp add: nth_opt_def strip_def)

lemma failed_save_run:
  "fst (pipeline ini_sys (Some ''nginx:1.0:rc/a b$'')
         (init_manager (configured_env [Line ''1'', Line ''n'']))) = Inl OSError
   \<and> tar_name (info (snd (pipeline ini_sys (Some ''nginx:1.0:rc/a b$'')
         (init_manager (configured_env [Line ''1'', Line ''n''])))))
       = ''nginx_1.0:rc/a b$_amd64_20240309_120005.tar''
   \<and> zip_name (info (snd (pipeline ini_sys (Some ''nginx:1.0:rc/a b$'')
         (init_manager (configured_env [Line ''1'', Line ''n''])))))
       = ''nginx_1.0:rc/a b$_amd64_20240309_120005.zip''"
  by (simp add: pipeline_def then_do_def configured_handle read_image_def truthy_def
        modify_info_def init_manager_fields configured_env_fields odd_tag_parsed
        select_architecture_def choose_amd64 select_mirror_def choose_no_mirror
        pull_image_def check_image_update_def check_image_update_body_def
        try_except_Exception_def subprocess_run_def exec_ini_sys compare_digests_def
        no_local_digest raise_def ret_def set_filenames_def
        strftime_stamp_noon create_tar_package_def
        subprocess_run_check_def os_path_exists_def generate_filenames_def base_name_def
        safe_name_def CONFIG_FILE_def init_info_fields
      del: select_architecture_loop.simps select_mirror_loop.simps)

section \<open>Name, tag and reference\<close>

text \<open>
  C3. \<open>parse_image_input\<close> splits its input at the first colon: an input
  \<open>n:t\<close> whose part \<open>n\<close> has no colon gives the name \<open>n\<close> and the tag
  \<open>t\<close>; an input without a colon is the name, and the tag keeps its initial value
  \<open>latest\<close>. In both cases the stored name has the length of the raw one, and each of
  its characters is the raw one if that is in \<open>[a-zA-Z0-9_./-]\<close> and an underscore
  otherwise.
\<close>

theorem parse_image_input_splits:
  "(CHR '':'' \<notin> set n \<longrightarrow>
      parse_image_input (n @ CHR '':'' # t) init_info =
        init_info\<lparr>original_name := re_sub_name n, original_tag := t\<rparr>)
   \<and> (CHR '':'' \<notin> set inp \<longrightarrow>
      parse_image_input inp init_info = init_info\<lparr>original_name := re_sub_name inp\<rparr>
      \<and> original_tag (parse_image_input inp init_info) = ''latest'')
   \<and> length (re_sub_name x) = length x
   \<and> (\<forall>i < length x. re_sub_name x ! i = (if name_class (x ! i) then x ! i else CHR ''_''))"
proof -
  have "parse_image_input (n @ CHR '':'' # t) init_info =
        init_info\<lparr>original_name := re_sub_name n, original_tag := t\<rparr>"
    if "CHR '':'' \<notin> set n"
    using that by (simp add: parse_image_input_def split1_first Let_def)
  moreover have "parse_image_input inp init_info = init_info\<lparr>original_name := re_sub_name inp\<rparr>
      \<and> original_tag (parse_image_input inp init_info) = ''latest''"
    if "CHR '':'' \<notin> set inp"
    using that by (simp add: parse_image_input_def Let_def init_info_def)
  moreover have "length (re_sub_name x) = length x"
    by (simp add: re_sub_name_def)
  ultimately show ?thesis
    using re_sub_name_nth by blast
qed

theorem parse_image_input_splits_witness:
  "CHR '':'' \<notin> set ''my repo''
   \<and> parse_image_input ''my repo:1.0:x'' init_info =
       init_info\<lparr>original_name := ''my_repo'', original_tag := ''1.0:x''\<rparr>
   \<and> CHR '':'' \<notin> set ''a b/c''
   \<and> parse_image_input ''a b/c'' init_info = init_info\<lparr>original_name := ''a_b/c''\<rparr>
   \<and> original_tag (parse_image_input ''a b/c'' init_info) = ''latest''"
proof -
  have a: "CHR '':'' \<notin> set ''my repo''" and b: "CHR '':'' \<notin> set ''a b/c''"
    by simp_all
  from a b parse_image_input_splits [of "''my repo''" "''1.0:x''" "''a b/c''" "[]"]
  show ?thesis
    by (simp add: re_sub_name_ex1 re_sub_name_ex2 init_info_def)
qed

text \<open>
  C4. With a mirror selected, \<open>get_pull_reference\<close> gives
  \<open>mirror/library/name\<close> for a name without a slash and \<open>mirror/name\<close> for a
  name with one; with no mirror it gives the name. A selected mirror is never empty
  (\<open>mirror_list_nonempty\<close>).
\<close>

theorem get_pull_reference_cases:
  "(m \<noteq> [] \<and> CHR ''/'' \<notin> set (original_name i) \<longrightarrow>
      get_pull_reference (i\<lparr>mirror := Some m\<rparr>) = m @ ''/library/'' @ original_name i)
   \<and> (m \<noteq> [] \<and> CHR ''/'' \<in> set (original_name i) \<longrightarrow>
      get_pull_reference (i\<lparr>mirror := Some m\<rparr>) = m @ ''/'' @ original_name i)
   \<and> get_pull_reference (i\<lparr>mirror := None\<rparr>) = original_name i"
  by (simp add: get_pull_reference_def truthy_def Let_def)

theorem get_pull_reference_cases_witness:
  "''mirror.example.com'' \<noteq> [] \<and> CHR ''/'' \<notin> set ''nginx''
   \<and> get_pull_reference (init_info\<lparr>original_name := ''nginx'', mirror := Some ''mirror.example.com''\<rparr>)
       = ''mirror.example.com/library/nginx''
   \<and> CHR ''/'' \<in> set ''bitnami/redis''
   \<and> get_pull_reference (init_info\<lparr>original_name := ''bitnami/redis'', mirror := Some ''mirror.example.com''\<rparr>)
       = ''mirror.example.com/bitnami/redis''"
  using get_pull_reference_cases [of "''mirror.example.com''" "init_info\<lparr>original_name := ''nginx''\<rparr>"]
        get_pull_reference_cases [of "''mirror.example.com''" "init_info\<lparr>original_name := ''bitnami/redis''\<rparr>"]
  by simp

text \<open>
  C10. The tag is whatever follows the first colon of the input, character for character,
  and \<open>generate_filenames\<close> puts it unchanged between the name and the
  architecture of both file names, whatever the architecture chosen in between. In a run
  that is given such an input, once the image has been read the tag of the record is that
  text until the end, and the file names, once generated, contain it unchanged.
\<close>

theorem tag_kept_verbatim:
  "CHR '':'' \<notin> set n \<Longrightarrow>
     original_tag (parse_image_input (n @ CHR '':'' # t) i) = t
     \<and> tar_name (generate_filenames now ((parse_image_input (n @ CHR '':'' # t) i)\<lparr>arch := a\<rparr>)) =
         safe_name (re_sub_name n) @ ''_'' @ t @ ''_'' @ a @ ''_'' @ strftime_stamp now @ ''.tar''
     \<and> zip_name (generate_filenames now ((parse_image_input (n @ CHR '':'' # t) i)\<lparr>arch := a\<rparr>)) =
         safe_name (re_sub_name n) @ ''_'' @ t @ ''_'' @ a @ ''_'' @ strftime_stamp now @ ''.zip''
     \<and> (pipeline sy (Some (n @ CHR '':'' # t)) s = (r, s') \<longrightarrow>
          info s' = info s
          \<or> (original_tag (info s') = t
              \<and> ((tar_name (info s') = tar_name (info s) \<and> zip_name (info s') = zip_name (info s))
                  \<or> (\<exists>stamp.
                        tar_name (info s') =
                          safe_name (re_sub_name n) @ ''_'' @ t @ ''_'' @ arch (info s') @ ''_'' @
                          strftime_stamp stamp @ ''.tar''
                        \<and> zip_name (info s') =
                          safe_name (re_sub_name n) @ ''_'' @ t @ ''_'' @ arch (info s') @ ''_'' @
                          strftime_stamp stamp @ ''.zip''))))"
proof -
  assume c: "CHR '':'' \<notin> set n"
  let ?inp = "n @ CHR '':'' # t"
  have p: "original_name (parse_image_input ?inp j) = re_sub_name n"
    "original_tag (parse_image_input ?inp j) = t" for j
    using c by (simp_all add: parse_image_input_def split1_first Let_def)
  have g: "tar_name (generate_filenames now ((parse_image_input ?inp i)\<lparr>arch := a\<rparr>)) =
         safe_name (re_sub_name n) @ ''_'' @ t @ ''_'' @ a @ ''_'' @ strftime_stamp now @ ''.tar''
     \<and> zip_name (generate_filenames now ((parse_image_input ?inp i)\<lparr>arch := a\<rparr>)) =
         safe_name (re_sub_name n) @ ''_'' @ t @ ''_'' @ a @ ''_'' @ strftime_stamp now @ ''.zip''"
    by (simp add: generate_filenames_pattern p)
  have r: "info s' = info s
          \<or> (original_tag (info s') = t
              \<and> ((tar_name (info s') = tar_name (info s) \<and> zip_name (info s') = zip_name (info s))
                  \<or> (\<exists>stamp.
                        tar_name (info s') =
                          safe_name (re_sub_name n) @ ''_'' @ t @ ''_'' @ arch (info s') @ ''_'' @
                          strftime_stamp stamp @ ''.tar''
                        \<and> zip_name (info s') =
                          safe_name (re_sub_name n) @ ''_'' @ t @ ''_'' @ arch (info s') @ ''_'' @
                          strftime_stamp stamp @ ''.zip'')))"
    if q: "pipeline sy (Some ?inp) s = (r, s')"
    using pipeline_names [OF q]
    by (auto simp: p named_at_def base_name_def)
  from p g r show ?thesis by blast
qed

theorem tag_kept_verbatim_witness:
  "CHR '':'' \<notin> set ''nginx''
   \<and> original_tag (parse_image_input ''nginx:1.0:rc/a b$'' init_info) = ''1.0:rc/a b$''
   \<and> tar_name (generate_filenames noon
        ((parse_image_input ''nginx:1.0:rc/a b$'' init_info)\<lparr>arch := ''amd64''\<rparr>)) =
      ''nginx_1.0:rc/a b$_amd64_20240309_120005.tar''
   \<and> zip_name (generate_filenames noon
        ((parse_image_input ''nginx:1.0:rc/a b$'' init_info)\<lparr>arch := ''amd64''\<rparr>)) =
      ''nginx_1.0:rc/a b$_amd64_20240309_120005.zip''
   \<and> fst (pipeline ini_sys (Some ''nginx:1.0:rc/a b$'')
         (init_manager (configured_env [Line ''1'', Line ''n'']))) = Inl OSError
   \<and> original_tag (info (snd (pipeline ini_sys (Some ''nginx:1.0:rc/a b$'')
         (init_manager (configured_env [Line ''1'', Line ''n''])))))
       = ''1.0:rc/a b$''
   \<and> tar_name (info (snd (pipeline ini_sys (Some ''nginx:1.0:rc/a b$'')
         (init_manager (configured_env [Line ''1'', Line ''n''])))))
       = ''nginx_1.0:rc/a b$_amd64_20240309_120005.tar''
   \<and> zip_name (info (snd (pipeline ini_sys (Some ''nginx:1.0:rc/a b$'')
         (init_manager (configured_env [Line ''1'', Line ''n''])))))
       = ''nginx_1.0:rc/a b$_amd64_20240309_120005.zip''"
proof -
  let ?s = "init_manager (configured_env [Line ''1'', Line ''n''])"
  let ?p = "pipeline ini_sys (Some ''nginx:1.0:rc/a b$'') ?s"
  have a: "CHR '':'' \<notin> set ''nginx''" by simp
  have n: "safe_name (re_sub_name ''nginx'') = ''nginx''"
    by (simp add: re_sub_name_def safe_name_def class_defs)
  have q: "?p = (fst ?p, snd ?p)" by simp
  note t = tag_kept_verbatim [OF a, where t = "''1.0:rc/a b$''" and i = init_info
      and now = noon and a = "''amd64''" and sy = ini_sys and s = ?s
      and r = "fst ?p" and s' = "snd ?p"]
  have d: "info (snd ?p) \<noteq> info ?s"
  proof
    assume "info (snd ?p) = info ?s"
    then have "tar_name (info (snd ?p)) = tar_name (info ?s)" by simp
    then show False
      using failed_save_run by (simp add: init_manager_fields init_info_fields)
  qed
  from t q d have g: "original_tag (info (snd ?p)) = ''1.0:rc/a b$''"
    by auto
  from t a have
    "original_tag (parse_image_input ''nginx:1.0:rc/a b$'' init_info) = ''1.0:rc/a b$''"
    "tar_name (generate_filenames noon
        ((parse_image_input ''nginx:1.0:rc/a b$'' init_info)\<lparr>arch := ''amd64''\<rparr>)) =
      ''nginx_1.0:rc/a b$_amd64_20240309_120005.tar''"
    "zip_name (generate_filenames noon
        ((parse_image_input ''nginx:1.0:rc/a b$'' init_info)\<lparr>arch := ''amd64''\<rparr>)) =
      ''nginx_1.0:rc/a b$_amd64_20240309_120005.zip''"
    by (simp_all add: n strftime_stamp_noon)
  with a g failed_save_run show ?thesis
    by (intro conjI) simp_all
qed

section \<open>File names and temporary files\<close>

text \<open>
  C5. The file names follow the pattern and share their base
  (\<open>generate_filenames_pattern\<close>), and the name part has no separator
  (\<open>safe_name_no_separator\<close>), but the names as a whole may contain one: the third
  architecture of the menu is \<open>arm/v7\<close>, and for the image \<open>nginx\<close> both
  file names then contain a slash.
\<close>

theorem generate_filenames_arm_v7:
  "select_architecture_loop [Line ''3''] = (Inr ''arm/v7'', [])
   \<and> tar_name (generate_filenames noon ((parse_image_input ''nginx'' init_info)\<lparr>arch := ''arm/v7''\<rparr>))
       = ''nginx_latest_arm/v7_20240309_120005.tar''
   \<and> zip_name (generate_filenames noon ((parse_image_input ''nginx'' init_info)\<lparr>arch := ''arm/v7''\<rparr>))
       = ''nginx_latest_arm/v7_20240309_120005.zip''
   \<and> CHR ''/'' \<in> set (tar_name (generate_filenames noon
         ((parse_image_input ''nginx'' init_info)\<lparr>arch := ''arm/v7''\<rparr>)))"
proof -
  have b: "tar_name (generate_filenames noon ((parse_image_input ''nginx'' init_info)\<lparr>arch := ''arm/v7''\<rparr>))
       = ''nginx_latest_arm/v7_20240309_120005.tar''"
    by (simp add: generate_filenames_pattern strftime_stamp_noon parse_image_input_def
        Let_def init_info_def re_sub_name_def safe_name_def class_defs)
  have c: "zip_name (generate_filenames noon ((parse_image_input ''nginx'' init_info)\<lparr>arch := ''arm/v7''\<rparr>))
       = ''nginx_latest_arm/v7_20240309_120005.zip''"
    by (simp add: generate_filenames_pattern strftime_stamp_noon parse_image_input_def
        Let_def init_info_def re_sub_name_def safe_name_def class_defs)
  have d: "CHR ''/'' \<in> set (tar_name (generate_filenames noon
         ((parse_image_input ''nginx'' init_info)\<lparr>arch := ''arm/v7''\<rparr>)))"
    unfolding b by simp
  show ?thesis
    by (intro conjI pick_arm b c d)
qed

text \<open>
  C6. \<open>clean_temp_files\<close> never raises, although \<open>os.remove\<close> raises on a path
  that holds nothing (\<open>os_remove_missing\<close>): afterwards the tar file and the zip file
  do not exist, every other path holds what it held and nothing but the files has
  changed; if neither file existed the state is the same; and a second cleanup succeeds
  and changes nothing more.
\<close>

theorem clean_temp_files_effect:
  "clean_temp_files s =
     (Inr (), s\<lparr>env := (env s)\<lparr>fs :=
        (\<lambda>p. if p = tar_name (info s) \<or> p = zip_name (info s) then None
             else fs (env s) p)\<rparr>\<rparr>)
   \<and> (fs (env s) (tar_name (info s)) = None \<and> fs (env s) (zip_name (info s)) = None
        \<longrightarrow> clean_temp_files s = (Inr (), s))
   \<and> clean_temp_files (snd (clean_temp_files s)) = (Inr (), snd (clean_temp_files s))"
proof -
  have 1: "clean_temp_files s = (Inr (), s)"
    if "fs (env s) (tar_name (info s)) = None \<and> fs (env s) (zip_name (info s)) = None"
  proof -
    from that have "(\<lambda>p. if p = tar_name (info s) \<or> p = zip_name (info s) then None
             else fs (env s) p) = fs (env s)"
      by auto
    then show ?thesis by (simp add: clean_temp_files_result)
  qed
  have 2: "clean_temp_files (snd (clean_temp_files s)) = (Inr (), snd (clean_temp_files s))"
  proof -
    let ?s = "snd (clean_temp_files s)"
    have "fs (env ?s) (tar_name (info ?s)) = None \<and> fs (env ?s) (zip_name (info ?s)) = None"
      by (simp add: clean_temp_files_result)
    then have "(\<lambda>p. if p = tar_name (info ?s) \<or> p = zip_name (info ?s) then None
             else fs (env ?s) p) = fs (env ?s)"
      by auto
    then show ?thesis by (simp add: clean_temp_files_result [of ?s])
  qed
  from 1 2 clean_temp_files_result [of s] show ?thesis by blast
qed

theorem clean_temp_files_effect_witness:
  "fs (env (init_manager quiet_env)) (tar_name (info (init_manager quiet_env))) = None
   \<and> fs (env (init_manager quiet_env)) (zip_name (info (init_manager quiet_env))) = None
   \<and> clean_temp_files (init_manager quiet_env) = (Inr (), init_manager quiet_env)
   \<and> fs (env temp_state) ''a.tar'' = Some (Text ''t'')
   \<and> fs (env temp_state) ''a.zip'' = None
   \<and> os_remove (fs (env temp_state)) ''a.zip'' = Inl OSError
   \<and> fst (clean_temp_files temp_state) = Inr ()
   \<and> fs (env (snd (clean_temp_files temp_state))) ''a.tar'' = None
   \<and> fs (env (snd (clean_temp_files temp_state))) ''notes.txt'' = Some (Text ''n'')"
proof -
  have h: "fs (env (init_manager quiet_env)) (tar_name (info (init_manager quiet_env))) = None
   \<and> fs (env (init_manager quiet_env)) (zip_name (info (init_manager quiet_env))) = None"
    by (simp add: init_manager_def quiet_env_def)
  have t: "tar_name (info temp_state) = ''a.tar''" "zip_name (info temp_state) = ''a.zip''"
    "fs (env temp_state) ''a.tar'' = Some (Text ''t'')"
    "fs (env temp_state) ''a.zip'' = None"
    "fs (env temp_state) ''notes.txt'' = Some (Text ''n'')"
    by (simp_all add: temp_state_def quiet_env_def)
  have r: "os_remove (fs (env temp_state)) ''a.zip'' = Inl OSError"
    by (simp add: os_remove_missing t)
  from clean_temp_files_effect [of temp_state]
  have c: "clean_temp_files temp_state =
     (Inr (), temp_state\<lparr>env := (env temp_state)\<lparr>fs :=
        (\<lambda>p. if p = ''a.tar'' \<or> p = ''a.zip'' then None else fs (env temp_state) p)\<rparr>\<rparr>)"
    by (simp add: t)
  have c1: "fst (clean_temp_files temp_state) = Inr ()"
    and c2: "fs (env (snd (clean_temp_files temp_state))) ''a.tar'' = None"
    and c3: "fs (env (snd (clean_temp_files temp_state))) ''notes.txt'' = Some (Text ''n'')"
    by (simp_all add: c t)
  from h clean_temp_files_effect [of "init_manager quiet_env"]
  have i: "clean_temp_files (init_manager quiet_env) = (Inr (), init_manager quiet_env)"
    by blast
  from h i t r c1 c2 c3 show ?thesis
    by (intro conjI) simp_all
qed

section \<open>The version check\<close>

text \<open>
  The local digest is the piece of the image id after its first colon, so it contains
  no colon; the remote digest is a match of \<open>\w+:\w+\<close>, so it contains one. The
  two are never equal.
\<close>

lemma compare_digests_true: "compare_digests a b s = (Inr v, s') \<Longrightarrow> v"
  by (auto simp: compare_digests_def act_defs split: option.splits
           dest!: nth_opt_mem split_no_sep re_search_digest_colon)

lemma check_image_update_never_false: "fst (check_image_update sy s) \<noteq> Inr False"
  by (auto simp: check_image_update_def check_image_update_body_def act_defs
           split: prod.splits outcome.splits sum.splits if_splits
           dest: compare_digests_true)

text \<open>
  C7. \<open>check_image_update\<close> answers that an update is needed, and raises nothing,
  when the local inspect returns a non-zero code, when the remote manifest inspect does,
  when both succeed and either digest cannot be extracted from the output, and when
  starting the first command raises an exception of class \<open>Exception\<close>.
\<close>

theorem check_image_update_degrades:
  "(exec sy (inspect_cmd (info s)) (env s) = (Completed rc out, w) \<and> rc \<noteq> 0
      \<longrightarrow> fst (check_image_update sy s) = Inr True)
   \<and> (exec sy (inspect_cmd (info s)) (env s) = (Completed 0 out, w)
       \<and> exec sy (manifest_cmd (info s)) w = (Completed mrc mout, w') \<and> mrc \<noteq> 0
      \<longrightarrow> fst (check_image_update sy s) = Inr True)
   \<and> (exec sy (inspect_cmd (info s)) (env s) = (Completed 0 out, w)
       \<and> exec sy (manifest_cmd (info s)) w = (Completed 0 mout, w')
       \<and> (nth_opt (split (CHR '':'') (strip out)) 1 = None \<or> re_search_digest mout = None)
      \<longrightarrow> fst (check_image_update sy s) = Inr True)
   \<and> (exec sy (inspect_cmd (info s)) (env s) = (Raised e, w) \<and> is_Exception e
      \<longrightarrow> fst (check_image_update sy s) = Inr True)"
  by (auto simp: check_image_update_def check_image_update_body_def act_defs compare_digests_def
           split: option.splits)

theorem check_image_update_degrades_witness:
  "exec no_local_sys (inspect_cmd (info nginx_state)) (env nginx_state) =
     (Completed 1 [], quiet_env) \<and> (1::int) \<noteq> 0
   \<and> fst (check_image_update no_local_sys nginx_state) = Inr True
   \<and> exec no_remote_sys (inspect_cmd (info nginx_state)) (env nginx_state) =
     (Completed 0 ''sha256:0a1b2c'', quiet_env)
   \<and> exec no_remote_sys (manifest_cmd (info nginx_state)) quiet_env =
     (Completed 1 [], quiet_env)
   \<and> fst (check_image_update no_remote_sys nginx_state) = Inr True
   \<and> exec garbled_sys (inspect_cmd (info nginx_state)) (env nginx_state) =
     (Completed 0 ''0a1b2c'', quiet_env)
   \<and> exec garbled_sys (manifest_cmd (info nginx_state)) quiet_env =
     (Completed 0 ''{}'', quiet_env)
   \<and> nth_opt (split (CHR '':'') (strip ''0a1b2c'')) 1 = None
   \<and> fst (check_image_update garbled_sys nginx_state) = Inr True
   \<and> exec no_docker_sys (inspect_cmd (info nginx_state)) (env nginx_state) =
     (Raised OSError, quiet_env) \<and> is_Exception OSError
   \<and> fst (check_image_update no_docker_sys nginx_state) = Inr True"
proof -
  have a: "exec no_local_sys (inspect_cmd (info nginx_state)) (env nginx_state) =
     (Completed 1 [], quiet_env)"
    by (simp add: no_local_sys_def exec_sys_of_argv nginx_state_simps cmds_nginx)
  have b1: "exec no_remote_sys (inspect_cmd (info nginx_state)) (env nginx_state) =
     (Completed 0 ''sha256:0a1b2c'', quiet_env)"
    by (simp add: no_remote_sys_def exec_sys_of_argv nginx_state_simps cmds_nginx)
  have b2: "exec no_remote_sys (manifest_cmd (info nginx_state)) quiet_env =
     (Completed 1 [], quiet_env)"
    by (simp add: no_remote_sys_def exec_sys_of_argv nginx_state_simps cmds_nginx)
  have c1: "exec garbled_sys (inspect_cmd (info nginx_state)) (env nginx_state) =
     (Completed 0 ''0a1b2c'', quiet_env)"
    by (simp add: garbled_sys_def exec_sys_of_argv nginx_state_simps cmds_nginx)
  have c2: "exec garbled_sys (manifest_cmd (info nginx_state)) quiet_env =
     (Completed 0 ''{}'', quiet_env)"
    by (simp add: garbled_sys_def exec_sys_of_argv nginx_state_simps cmds_nginx)
  have d: "exec no_docker_sys (inspect_cmd (info nginx_state)) (env nginx_state) =
     (Raised OSError, quiet_env)"
    by (simp add: no_docker_sys_def exec_sys_of_argv nginx_state_simps cmds_nginx)
  have ra: "fst (check_image_update no_local_sys nginx_state) = Inr True"
    using check_image_update_degrades [where sy = no_local_sys and s = nginx_state
        and rc = 1 and out = "[]" and w = quiet_env] a
    by simp
  have rb: "fst (check_image_update no_remote_sys nginx_state) = Inr True"
    using check_image_update_degrades [where sy = no_remote_sys and s = nginx_state
        and out = "''sha256:0a1b2c''" and w = quiet_env and mrc = 1 and mout = "[]"
        and w' = quiet_env] b1 b2
    by simp
  have rc: "fst (check_image_update garbled_sys nginx_state) = Inr True"
    using check_image_update_degrades [where sy = garbled_sys and s = nginx_state
        and out = "''0a1b2c''" and w = quiet_env and mout = "''{}''"
        and w' = quiet_env] c1 c2 nth_opt_no_colon
    by simp
  have rd: "fst (check_image_update no_docker_sys nginx_state) = Inr True"
    using check_image_update_degrades [where sy = no_docker_sys and s = nginx_state
        and e = OSError and w = quiet_env] d
    by simp
  show ?thesis
    by (intro conjI a b1 b2 c1 c2 d ra rb rc rd nth_opt_no_colon) simp_all
qed

text \<open>
  C2. Both commands succeed, the image id is \<open>sha256:0a1b2c\<close> and the digest of
  the manifest is \<open>sha256:0a1b2c\<close>: \<open>check_image_update\<close> still answers that
  an update is needed, and \<open>pull_image\<close> runs the pull. By
  \<open>check_image_update_never_false\<close> no output of the two commands makes it answer
  otherwise.
\<close>

theorem check_image_update_equal_digests:
  "exec same_digest_sys (inspect_cmd (info nginx_state)) (env nginx_state) =
     (Completed 0 (''sha256:0a1b2c'' @ [CHR 0x0A]), quiet_env)
   \<and> exec same_digest_sys (manifest_cmd (info nginx_state)) quiet_env =
     (Completed 0 manifest_json, quiet_env)
   \<and> re_search_digest manifest_json = Some ''sha256:0a1b2c''
   \<and> fst (check_image_update same_digest_sys nginx_state) = Inr True
   \<and> trace (snd (pull_image same_digest_sys nginx_state)) =
       [inspect_cmd (info nginx_state), manifest_cmd (info nginx_state),
        pull_cmd (info nginx_state)]"
proof -
  have a: "exec same_digest_sys (inspect_cmd (info nginx_state)) (env nginx_state) =
     (Completed 0 (''sha256:0a1b2c'' @ [CHR 0x0A]), quiet_env)"
    by (simp add: same_digest_sys_def exec_sys_of_argv nginx_state_simps cmds_nginx)
  have b: "exec same_digest_sys (manifest_cmd (info nginx_state)) quiet_env =
     (Completed 0 manifest_json, quiet_env)"
    by (simp add: same_digest_sys_def exec_sys_of_argv nginx_state_simps cmds_nginx)
  have p: "exec same_digest_sys (pull_cmd (info nginx_state)) quiet_env =
     (Completed 0 [], quiet_env)"
    by (simp add: same_digest_sys_def exec_sys_of_argv nginx_state_simps cmds_nginx)
  have c: "check_image_update same_digest_sys nginx_state =
     (Inr True, nginx_state\<lparr>env := quiet_env,
        trace := [inspect_cmd (info nginx_state), manifest_cmd (info nginx_state)]\<rparr>)"
    using a b local_digest_ex
    by (simp add: check_image_update_def check_image_update_body_def act_defs compare_digests_def
          remote_digest_ex nginx_state_simps)
  have d: "trace (snd (pull_image same_digest_sys nginx_state)) =
       [inspect_cmd (info nginx_state), manifest_cmd (info nginx_state),
        pull_cmd (info nginx_state)]"
    using p by (simp add: pull_image_def c act_defs nginx_state_simps)
  show ?thesis
    using c by (intro conjI a b remote_digest_ex d) simp
qed

text \<open>
  Read on the two extracted strings: when both commands succeed, no update is reported
  exactly when both digests can be extracted and are the same string. By
  \<open>check_image_update_never_false\<close> that never happens.
\<close>

lemma check_image_update_extracted:
  assumes "exec sy (inspect_cmd (info s)) (env s) = (Completed 0 out, w)"
    and "exec sy (manifest_cmd (info s)) w = (Completed 0 mout, w')"
  shows "fst (check_image_update sy s) = Inr False \<longleftrightarrow>
     (\<exists>d. nth_opt (split (CHR '':'') (strip out)) 1 = Some d \<and> re_search_digest mout = Some d)"
  using assms
  by (auto simp: check_image_update_def check_image_update_body_def act_defs compare_digests_def
           split: option.splits)

section \<open>Removal of the image\<close>

text \<open>
  C1, as stated, fails: a container uses the image, and \<open>clean_image\<close> runs the
  usage check and nothing else; no job is handed to the scheduler.
\<close>

theorem clean_image_in_use_no_job:
  "fst (check_container_usage busy_sys pulled_state) = Inr True
   \<and> trace (snd (clean_image busy_sys pulled_state)) = [ps_cmd (info pulled_state)]
   \<and> \<not> deferred_removal_attempted (snd (clean_image busy_sys pulled_state))"
proof -
  have c: "clean_image busy_sys pulled_state =
     (Inr (), pulled_state\<lparr>env := quiet_env, trace := [ps_cmd (info pulled_state)]\<rparr>)"
    by (simp add: clean_image_def then_do_def busy_usage ret_def)
  show ?thesis
    by (simp add: c busy_usage deferred_removal_attempted_def ps_cmd_def)
qed

text \<open>
  C1, amended. When the usage check finds a container, \<open>clean_image\<close> returns
  at once: the usage check is the only command it runs, so the image is neither removed
  nor scheduled for removal. The deferred removal is attempted in the other case: no
  container uses the image and the immediate removal returns a non-zero code.
\<close>

theorem clean_image_cases:
  "(check_container_usage sy s = (Inr True, s1) \<longrightarrow>
      clean_image sy s = (Inr (), s1)
      \<and> trace (snd (clean_image sy s)) = trace s @ [ps_cmd (info s)])
   \<and> (check_container_usage sy s = (Inr False, s1)
       \<and> exec sy (rmi_cmd (info s)) (env s1) = (Completed rc out, w) \<and> rc \<noteq> 0
       \<and> plus_24h (clock w) = Inr t
      \<longrightarrow> trace (snd (clean_image sy s)) =
            trace s @ [ps_cmd (info s), rmi_cmd (info s), at_cmd (info s) t])"
proof -
  have 1: "clean_image sy s = (Inr (), s1)
      \<and> trace (snd (clean_image sy s)) = trace s @ [ps_cmd (info s)]"
    if "check_container_usage sy s = (Inr True, s1)"
    using that check_container_usage_trace [OF that]
    by (simp add: clean_image_def then_do_def ret_def)
  have 2: "trace (snd (clean_image sy s)) =
            trace s @ [ps_cmd (info s), rmi_cmd (info s), at_cmd (info s) t]"
    if u: "check_container_usage sy s = (Inr False, s1)"
      and r: "exec sy (rmi_cmd (info s)) (env s1) = (Completed rc out, w)" "rc \<noteq> 0"
      and p: "plus_24h (clock w) = Inr t"
    using u r p check_container_usage_trace [OF u]
    by (auto simp: clean_image_def schedule_cleanup_def act_defs
             split: prod.splits outcome.splits sum.splits)
  from 1 2 show ?thesis by blast
qed

theorem clean_image_cases_witness:
  "check_container_usage busy_sys pulled_state =
     (Inr True, pulled_state\<lparr>env := quiet_env, trace := [ps_cmd (info pulled_state)]\<rparr>)
   \<and> trace (snd (clean_image busy_sys pulled_state)) =
       [Argv [''docker'', ''ps'', ''-a'', ''-q'', ''--filter'', ''ancestor=nginx:latest'']]
   \<and> check_container_usage stuck_sys pulled_state =
     (Inr False, pulled_state\<lparr>env := quiet_env, trace := [ps_cmd (info pulled_state)]\<rparr>)
   \<and> exec stuck_sys (rmi_cmd (info pulled_state)) quiet_env = (Completed 1 [], quiet_env)
   \<and> (1::int) \<noteq> 0
   \<and> plus_24h (clock quiet_env) = Inr next_noon
   \<and> trace (snd (clean_image stuck_sys pulled_state)) =
       [Argv [''docker'', ''ps'', ''-a'', ''-q'', ''--filter'', ''ancestor=nginx:latest''],
        Argv [''docker'', ''rmi'', ''nginx:latest''],
        Shell (''echo '' @ [dquote] @ ''docker rmi nginx:latest'' @ [dquote] @
               '' | at 12:00 2024-03-10'')]"
proof -
  have a: "trace (snd (clean_image busy_sys pulled_state)) =
       [Argv [''docker'', ''ps'', ''-a'', ''-q'', ''--filter'', ''ancestor=nginx:latest'']]"
    using clean_image_cases [where sy = busy_sys and s = pulled_state
        and ?s1.0 = "pulled_state\<lparr>env := quiet_env, trace := [ps_cmd (info pulled_state)]\<rparr>"]
      busy_usage
    by (simp add: pulled_state_simps cmds_pulled)
  have b: "trace (snd (clean_image stuck_sys pulled_state)) =
       [Argv [''docker'', ''ps'', ''-a'', ''-q'', ''--filter'', ''ancestor=nginx:latest''],
        Argv [''docker'', ''rmi'', ''nginx:latest''],
        Shell (''echo '' @ [dquote] @ ''docker rmi nginx:latest'' @ [dquote] @
               '' | at 12:00 2024-03-10'')]"
    using clean_image_cases [where sy = stuck_sys and s = pulled_state
        and ?s1.0 = "pulled_state\<lparr>env := quiet_env, trace := [ps_cmd (info pulled_state)]\<rparr>"
        and rc = 1 and out = "[]" and w = quiet_env and t = next_noon]
      stuck_usage stuck_rmi plus_24h_noon at_cmd_ex
    by (simp add: pulled_state_simps cmds_pulled)
  show ?thesis
    by (intro conjI busy_usage a stuck_usage stuck_rmi plus_24h_noon b) simp
qed

section \<open>The run as a whole\<close>

text \<open>
  C8, as stated, fails: \<open>handle_config\<close> leaves through \<open>sys.exit(0)\<close>
  inside the \<open>try\<close> statement, which neither handler catches, and the process
  exits with status 0.
\<close>

theorem run_exits_zero_without_config:
  "fst (pipeline ini_sys None (init_manager quiet_env)) = Inl (SystemExit 0)
   \<and> fst (run ini_sys None (init_manager quiet_env)) = 0"
proof -
  have "fs (env (init_manager quiet_env)) CONFIG_FILE = None"
    by (simp add: init_manager_def quiet_env_def)
  from handle_config_raises [OF handle_config_missing [OF this]]
  show ?thesis by (simp add: run_def)
qed

text \<open>
  C8, amended. When the pipeline raises \<open>KeyboardInterrupt\<close>, \<open>run\<close> cleans
  the temporary files and exits with status 130; when it raises an exception of class
  \<open>Exception\<close>, \<open>run\<close> cleans the temporary files and exits with status 1; in
  both cases the cleanup itself raises nothing and neither temporary file exists
  afterwards. A \<open>SystemExit\<close> passes
  through with its own status and without cleanup.
\<close>

theorem run_on_exception:
  "pipeline sy a s = (Inl e, s') \<Longrightarrow>
     (e = KeyboardInterrupt \<longrightarrow> run sy a s = (130, snd (clean_temp_files s')))
     \<and> (is_Exception e \<longrightarrow> run sy a s = (1, snd (clean_temp_files s')))
     \<and> (e = KeyboardInterrupt \<or> is_Exception e \<longrightarrow>
          fst (clean_temp_files s') = Inr ()
          \<and> fs (env (snd (run sy a s))) (tar_name (info s')) = None
          \<and> fs (env (snd (run sy a s))) (zip_name (info s')) = None)
     \<and> (e = SystemExit n \<longrightarrow> run sy a s = (n, s'))"
proof -
  assume p: "pipeline sy a s = (Inl e, s')"
  have c: "fst (clean_temp_files s') = Inr ()
      \<and> fs (env (snd (clean_temp_files s'))) (tar_name (info s')) = None
      \<and> fs (env (snd (clean_temp_files s'))) (zip_name (info s')) = None"
    by (simp add: clean_temp_files_result)
  from p c show ?thesis
    by (cases e) (simp_all add: run_def cleanup_then_exit_result)
qed

theorem run_on_exception_witness:
  "fst (pipeline ini_sys None (init_manager (configured_env [CtrlC]))) = Inl KeyboardInterrupt
   \<and> fst (run ini_sys None (init_manager (configured_env [CtrlC]))) = 130
   \<and> fst (pipeline ini_sys None (init_manager (configured_env []))) = Inl EOFError
   \<and> is_Exception EOFError
   \<and> fst (run ini_sys None (init_manager (configured_env []))) = 1
   \<and> fst (pipeline ini_sys None (init_manager quiet_env)) = Inl (SystemExit 0)
   \<and> fst (run ini_sys None (init_manager quiet_env)) = 0"
proof -
  have p: "x = (fst x, snd x)" for x :: "(exn + unit) \<times> unit manager"
    by simp
  have a: "fst (run ini_sys None (init_manager (configured_env [CtrlC]))) = 130"
    using run_on_exception [where sy = ini_sys and a = None
        and s = "init_manager (configured_env [CtrlC])" and e = KeyboardInterrupt
        and s' = "snd (pipeline ini_sys None (init_manager (configured_env [CtrlC])))"]
      interrupted_pipeline p [of "pipeline ini_sys None (init_manager (configured_env [CtrlC]))"]
    by simp
  have b: "fst (run ini_sys None (init_manager (configured_env []))) = 1"
    using run_on_exception [where sy = ini_sys and a = None
        and s = "init_manager (configured_env [])" and e = EOFError
        and s' = "snd (pipeline ini_sys None (init_manager (configured_env [])))"]
      starved_pipeline p [of "pipeline ini_sys None (init_manager (configured_env []))"]
    by simp
  have m: "fs (env (init_manager quiet_env)) CONFIG_FILE = None"
    by (simp add: init_manager_def quiet_env_def)
  have c0: "fst (pipeline ini_sys None (init_manager quiet_env)) = Inl (SystemExit 0)"
    using handle_config_raises [OF handle_config_missing [OF m]] by simp
  have c: "fst (run ini_sys None (init_manager quiet_env)) = 0"
    using run_on_exception [where sy = ini_sys and a = None
        and s = "init_manager quiet_env" and e = "SystemExit 0" and n = 0
        and s' = "snd (pipeline ini_sys None (init_manager quiet_env))"]
      c0 p [of "pipeline ini_sys None (init_manager quiet_env)"]
    by simp
  show ?thesis
    by (intro conjI interrupted_pipeline a starved_pipeline b c0 c) simp
qed

text \<open>
  C9. Without a configuration file, \<open>handle_config\<close> writes the template (the
  default staging path, the default mirror list and a note) and raises
  \<open>SystemExit(0)\<close>; \<open>run\<close> then ends with status 0 in a state that differs
  from the initial one by that file only: no input was read and no command was run. With
  a configuration file that parses, \<open>handle_config\<close> stores the staging path (or its
  default) and the mirror entry split at commas, each piece stripped and the blank ones
  dropped; every stored mirror is non-empty, starts and ends with a character that is
  not white space, and contains no comma.
\<close>

theorem handle_config_cases:
  "(fs (env s) CONFIG_FILE = None \<longrightarrow>
      handle_config sy s =
        (Inl (SystemExit 0),
         s\<lparr>env := (env s)\<lparr>fs := (fs (env s))(CONFIG_FILE \<mapsto> config_template)\<rparr>\<rparr>)
      \<and> run sy a s =
        (0, s\<lparr>env := (env s)\<lparr>fs := (fs (env s))(CONFIG_FILE \<mapsto> config_template)\<rparr>\<rparr>))
   \<and> config_template =
       Ini [(''remote_path'', ''/tmp/docker-images''),
            (''registry_mirrors'', ''https://registry.docker-cn.com,https://mirror.baidubce.com''),
            template_note]
   \<and> (fs (env s) CONFIG_FILE = Some f \<and> cfg_parse sy f = Inr d \<longrightarrow>
      handle_config sy s =
        (Inr (), s\<lparr>remote_path := get_or d ''remote_path'' ''/tmp/docker-images'',
                  registry_mirrors :=
                    map strip (filter (\<lambda>m. strip m \<noteq> [])
                      (split (CHR '','') (get_or d ''registry_mirrors'' [])))\<rparr>))
   \<and> (\<forall>m \<in> set (mirror_list entry).
        m \<noteq> [] \<and> \<not> is_space (hd m) \<and> \<not> is_space (last m) \<and> CHR '','' \<notin> set m)"
proof -
  have 1: "handle_config sy s =
        (Inl (SystemExit 0),
         s\<lparr>env := (env s)\<lparr>fs := (fs (env s))(CONFIG_FILE \<mapsto> config_template)\<rparr>\<rparr>)
      \<and> run sy a s =
        (0, s\<lparr>env := (env s)\<lparr>fs := (fs (env s))(CONFIG_FILE \<mapsto> config_template)\<rparr>\<rparr>)"
    if "fs (env s) CONFIG_FILE = None"
    using handle_config_missing [OF that, of sy]
      handle_config_raises [OF handle_config_missing [OF that], of sy a]
    by (simp add: run_def)
  have 2: "handle_config sy s =
        (Inr (), s\<lparr>remote_path := get_or d ''remote_path'' ''/tmp/docker-images'',
                  registry_mirrors :=
                    map strip (filter (\<lambda>m. strip m \<noteq> [])
                      (split (CHR '','') (get_or d ''registry_mirrors'' [])))\<rparr>)"
    if "fs (env s) CONFIG_FILE = Some f" "cfg_parse sy f = Inr d"
    using handle_config_present [OF that] by (simp add: mirror_list_def)
  from 1 2 mirror_list_entries show ?thesis
    by (simp add: config_template_def)
qed

theorem handle_config_cases_witness:
  "fs (env (init_manager quiet_env)) CONFIG_FILE = None
   \<and> run ini_sys None (init_manager quiet_env) =
       (0, init_manager (quiet_env\<lparr>fs := [CONFIG_FILE \<mapsto> config_template]\<rparr>))
   \<and> fs (env (init_manager (configured_env []))) CONFIG_FILE = Some operator_config
   \<and> cfg_parse ini_sys operator_config =
       Inr (map_of [(''remote_path'', ''/srv/stage''),
                    (''registry_mirrors'', '' https://a.example , ,https://b.example'')])
   \<and> handle_config ini_sys (init_manager (configured_env [])) =
       (Inr (), (init_manager (configured_env []))
          \<lparr>remote_path := ''/srv/stage'',
           registry_mirrors := [''https://a.example'', ''https://b.example'']\<rparr>)
   \<and> ''https://a.example'' \<in> set (mirror_list '' https://a.example , ,https://b.example'')
   \<and> \<not> is_space (hd ''https://a.example'')"
proof -
  have m: "fs (env (init_manager quiet_env)) CONFIG_FILE = None"
    by (simp add: init_manager_def quiet_env_def)
  have a: "run ini_sys None (init_manager quiet_env) =
       (0, init_manager (quiet_env\<lparr>fs := [CONFIG_FILE \<mapsto> config_template]\<rparr>))"
    using handle_config_cases [where s = "init_manager quiet_env" and sy = ini_sys and a = None] m
    by (simp add: init_manager_def quiet_env_def)
  have b: "handle_config ini_sys (init_manager (configured_env [])) =
       (Inr (), (init_manager (configured_env []))
          \<lparr>remote_path := ''/srv/stage'',
           registry_mirrors := [''https://a.example'', ''https://b.example'']\<rparr>)"
    using handle_config_cases [where s = "init_manager (configured_env [])" and sy = ini_sys
        and f = operator_config
        and d = "map_of [(''remote_path'', ''/srv/stage''),
                    (''registry_mirrors'', '' https://a.example , ,https://b.example'')]"]
      configured_fs [of "[]"] read_operator_config operator_mirrors
    by (simp add: get_or_def mirror_list_def)
  have c: "''https://a.example'' \<in> set (mirror_list '' https://a.example , ,https://b.example'')"
    by (simp add: operator_mirrors)
  have d: "\<not> is_space (hd ''https://a.example'')"
    using handle_config_cases [where entry = "'' https://a.example , ,https://b.example''"] c
    by blast
  show ?thesis
    by (intro conjI m a configured_fs read_operator_config b c d)
qed

end
